theory Spec2Isabelle
  imports Main
begin

section \<open>Errors (pkg/errors/errors.go)\<close>

text \<open>
  The sentinel values of the errors package. A Go \<open>error\<close> returned by the modelled
  functions is either an \<open>AppError\<close> (sentinel, message, HTTP status; its \<open>Internal\<close>
  field is only set by \<open>NewInternalError\<close>, which no modelled function calls) or the
  result of \<open>fmt.Errorf\<close>, kept as its formatted message.
\<close>

datatype sentinel =
    ErrInvalidCredentials | ErrTokenExpired | ErrTokenInvalid | ErrUnauthorized
  | ErrUserNotFound | ErrUserAlreadyExists | ErrUserInactive
  | ErrInvalidInput | ErrInvalidEmail | ErrWeakPassword | ErrPasswordMismatch
  | ErrRateLimitExceeded
  | ErrInternal | ErrDatabaseError | ErrCacheError

datatype error =
    AppError (Err: sentinel) (Message: string) (StatusCode: nat)
  | Errorf string
  | Panic string

fun sentinel_text :: "sentinel \<Rightarrow> string" where
  "sentinel_text ErrInvalidCredentials = ''invalid email or password''"
| "sentinel_text ErrTokenExpired = ''token has expired''"
| "sentinel_text ErrTokenInvalid = ''invalid token''"
| "sentinel_text ErrUnauthorized = ''unauthorized''"
| "sentinel_text ErrUserNotFound = ''user not found''"
| "sentinel_text ErrUserAlreadyExists = ''user already exists''"
| "sentinel_text ErrUserInactive = ''user account is inactive''"
| "sentinel_text ErrInvalidInput = ''invalid input''"
| "sentinel_text ErrInvalidEmail = ''invalid email format''"
| "sentinel_text ErrWeakPassword = ''password does not meet strength requirements''"
| "sentinel_text ErrPasswordMismatch = ''passwords do not match''"
| "sentinel_text ErrRateLimitExceeded = ''rate limit exceeded''"
| "sentinel_text ErrInternal = ''internal server error''"
| "sentinel_text ErrDatabaseError = ''database error''"
| "sentinel_text ErrCacheError = ''cache error''"

text \<open>The method \<open>Error\<close> of \<open>AppError\<close>, and the message of the other errors.\<close>

fun error_string :: "error \<Rightarrow> string" where
  "error_string (AppError e m c) = (if m \<noteq> [] then m else sentinel_text e)"
| "error_string (Errorf m) = m"
| "error_string (Panic m) = m"

definition NewBadRequest :: "string \<Rightarrow> error" where
  "NewBadRequest message = AppError ErrInvalidInput message 400"

definition NewUnauthorized :: "string \<Rightarrow> error" where
  "NewUnauthorized message = AppError ErrUnauthorized message 401"

definition NewNotFound :: "string \<Rightarrow> error" where
  "NewNotFound message = AppError ErrUserNotFound message 404"

definition NewForbidden :: "string \<Rightarrow> error" where
  "NewForbidden message = AppError ErrUserInactive message 403"

definition NewConflict :: "string \<Rightarrow> error" where
  "NewConflict message = AppError ErrUserAlreadyExists message 409"

section \<open>Password policy (internal/utils/password.go, services: validatePassword)\<close>

text \<open>
  A Go string is a byte sequence; \<open>len\<close> counts bytes. The character classes tested
  below are ASCII ranges, and every byte of a multi-byte UTF-8 sequence (and every
  invalid byte, which \<open>range\<close> and \<open>regexp\<close> read as U+FFFD) lies outside them, so a
  test over the runes of the string is the same test over its bytes.
\<close>

definition is_upper :: "char \<Rightarrow> bool" where
  "is_upper c \<longleftrightarrow> (65::nat) \<le> of_char c \<and> (of_char c :: nat) \<le> 90"

definition is_lower :: "char \<Rightarrow> bool" where
  "is_lower c \<longleftrightarrow> (97::nat) \<le> of_char c \<and> (of_char c :: nat) \<le> 122"

definition is_digit :: "char \<Rightarrow> bool" where
  "is_digit c \<longleftrightarrow> (48::nat) \<le> of_char c \<and> (of_char c :: nat) \<le> 57"

text \<open>The loop \<open>for _, char := range password { if P(char) { found = true; break } }\<close>.\<close>

fun range_any :: "(char \<Rightarrow> bool) \<Rightarrow> string \<Rightarrow> bool" where
  "range_any P [] = False"
| "range_any P (c # cs) = (if P c then True else range_any P cs)"

text \<open>\<open>strings.ContainsRune\<close> on an ASCII set of characters.\<close>

fun ContainsRune :: "string \<Rightarrow> char \<Rightarrow> bool" where
  "ContainsRune [] r = False"
| "ContainsRune (c # cs) r = (if c = r then True else ContainsRune cs r)"

text \<open>
  \<open>strings.ToLower\<close>, as it acts on ASCII letters. (Go also folds non-ASCII letters; the
  deny-lists hold ASCII words only.)
\<close>

definition lower_char :: "char \<Rightarrow> char" where
  "lower_char c = (if is_upper c then char_of (of_char c + (32::nat)) else c)"

definition ToLower :: "string \<Rightarrow> string" where
  "ToLower s = map lower_char s"

text \<open>The deny-list of package utils (a \<open>map[string]bool\<close> whose values are all true).\<close>

definition utils_commonPasswords :: "string list" where
  "utils_commonPasswords =
    [''password'', ''password123'', ''123456'', ''12345678'', ''qwerty'', ''qwerty123'',
     ''abc123'', ''monkey'', ''letmein'', ''welcome'', ''admin'', ''admin123'']"

definition utils_specialChars :: string where
  "utils_specialChars = ''!@#$%^&*()_+-=[]{}|;:,.<>?''"

definition ValidatePasswordStrength :: "string \<Rightarrow> error option" where
  "ValidatePasswordStrength password =
    (if length password < 8 then
       Some (Errorf ''password must be at least 8 characters long'')
     else if length password > 72 then
       Some (Errorf ''password too long: maximum 72 bytes'')
     else if \<not> range_any is_upper password then
       Some (Errorf ''password must contain at least one uppercase letter'')
     else if \<not> range_any is_lower password then
       Some (Errorf ''password must contain at least one lowercase letter'')
     else if \<not> range_any is_digit password then
       Some (Errorf ''password must contain at least one number'')
     else if \<not> range_any (ContainsRune utils_specialChars) password then
       Some (Errorf ''password must contain at least one special character'')
     else if ToLower password \<in> set utils_commonPasswords then
       Some (Errorf ''password is too common, please choose a more unique password'')
     else None)"

text \<open>The deny-list of package services.\<close>

definition commonPasswords :: "string list" where
  "commonPasswords =
    [''password'', ''password123'', ''12345678'', ''qwerty'', ''abc123'', ''password1'',
     ''password123!'', ''welcome'', ''welcome123'', ''admin'', ''admin123'', ''letmein'',
     ''monkey'', ''1234567890'']"

text \<open>
  The character class of the regular expression for special characters in
  \<open>validatePassword\<close>: the characters of \<open>utils_specialChars\<close> and, in addition,
  the apostrophe, the double quote, the backslash and the slash.
\<close>

definition regexp_special_class :: string where
  "regexp_special_class =
     ''!@#$%^&*()_+-=[]{};'' @ [CHR 0x27] @ '':'' @ [CHR 0x22, CHR 0x5C] @ ''|,.<>/?''"

text \<open>
  \<open>regexp.MustCompile(`[...]`).MatchString(s)\<close> for a single character class: some
  character of \<open>s\<close> is in the class.
\<close>

definition MatchString_class :: "(char \<Rightarrow> bool) \<Rightarrow> string \<Rightarrow> bool" where
  "MatchString_class cls s = range_any cls s"

definition validatePassword :: "string \<Rightarrow> error option" where
  "validatePassword password =
    (if length password < 8 then
       Some (NewBadRequest ''password must be at least 8 characters long'')
     else if length password > 72 then
       Some (NewBadRequest ''password too long: maximum 72 characters'')
     else if \<not> MatchString_class is_upper password then
       Some (NewBadRequest ''password must contain at least one uppercase letter'')
     else if \<not> MatchString_class is_lower password then
       Some (NewBadRequest ''password must contain at least one lowercase letter'')
     else if \<not> MatchString_class is_digit password then
       Some (NewBadRequest ''password must contain at least one number'')
     else if \<not> MatchString_class (ContainsRune regexp_special_class) password then
       Some (NewBadRequest ''password must contain at least one special character'')
     else if ToLower password \<in> set commonPasswords then
       Some (NewBadRequest ''password is too common, please choose a stronger password'')
     else None)"

subsection \<open>The rules as an ordered list\<close>

text \<open>
  A rule is a violation test with the error it reports; a list of rules is evaluated in
  order and the first violated rule decides the result.
\<close>

fun first_violation :: "((string \<Rightarrow> bool) \<times> error) list \<Rightarrow> string \<Rightarrow> error option" where
  "first_violation [] p = None"
| "first_violation ((violated, e) # rs) p =
     (if violated p then Some e else first_violation rs p)"

datatype rule = Length | Lowercase | Uppercase | Digit | Symbol | DenyList

text \<open>The rules of \<open>validatePassword\<close>; the length rule reports two errors.\<close>

fun service_rule :: "rule \<Rightarrow> ((string \<Rightarrow> bool) \<times> error) list" where
  "service_rule Length =
     [(\<lambda>p. length p < 8, NewBadRequest ''password must be at least 8 characters long''),
      (\<lambda>p. length p > 72, NewBadRequest ''password too long: maximum 72 characters'')]"
| "service_rule Lowercase =
     [(\<lambda>p. \<not> range_any is_lower p,
       NewBadRequest ''password must contain at least one lowercase letter'')]"
| "service_rule Uppercase =
     [(\<lambda>p. \<not> range_any is_upper p,
       NewBadRequest ''password must contain at least one uppercase letter'')]"
| "service_rule Digit =
     [(\<lambda>p. \<not> range_any is_digit p,
       NewBadRequest ''password must contain at least one number'')]"
| "service_rule Symbol =
     [(\<lambda>p. \<not> range_any (ContainsRune regexp_special_class) p,
       NewBadRequest ''password must contain at least one special character'')]"
| "service_rule DenyList =
     [(\<lambda>p. ToLower p \<in> set commonPasswords,
       NewBadRequest ''password is too common, please choose a stronger password'')]"

text \<open>The rules of \<open>ValidatePasswordStrength\<close>.\<close>

fun utils_rule :: "rule \<Rightarrow> ((string \<Rightarrow> bool) \<times> error) list" where
  "utils_rule Length =
     [(\<lambda>p. length p < 8, Errorf ''password must be at least 8 characters long''),
      (\<lambda>p. length p > 72, Errorf ''password too long: maximum 72 bytes'')]"
| "utils_rule Lowercase =
     [(\<lambda>p. \<not> range_any is_lower p,
       Errorf ''password must contain at least one lowercase letter'')]"
| "utils_rule Uppercase =
     [(\<lambda>p. \<not> range_any is_upper p,
       Errorf ''password must contain at least one uppercase letter'')]"
| "utils_rule Digit =
     [(\<lambda>p. \<not> range_any is_digit p,
       Errorf ''password must contain at least one number'')]"
| "utils_rule Symbol =
     [(\<lambda>p. \<not> range_any (ContainsRune utils_specialChars) p,
       Errorf ''password must contain at least one special character'')]"
| "utils_rule DenyList =
     [(\<lambda>p. ToLower p \<in> set utils_commonPasswords,
       Errorf ''password is too common, please choose a more unique password'')]"

text \<open>The order of evaluation as the specification words it: lowercase before uppercase.\<close>

definition spec_order :: "rule list" where
  "spec_order = [Length, Lowercase, Uppercase, Digit, Symbol, DenyList]"

text \<open>The order of evaluation with uppercase before lowercase.\<close>

definition code_order :: "rule list" where
  "code_order = [Length, Uppercase, Lowercase, Digit, Symbol, DenyList]"

section \<open>Admission controller (middleware: RateLimiter)\<close>

text \<open>
  Instants (\<open>time.Time\<close> values read from \<open>time.Now\<close>) and durations are integers,
  in nanoseconds; \<open>t.Sub(u)\<close> is \<open>t - u\<close> and \<open>t.Add(d)\<close> is \<open>t + d\<close>. The model covers
  the instants whose differences fit Go's 64-bit \<open>Duration\<close> (about 292 years), where
  \<open>Sub\<close> does not saturate. Go's \<open>int\<close> counter is only ever decremented when positive.
  The product \<open>rl.window*2\<close> of the sweep is a product of 64-bit integers and wraps.
\<close>

definition wrap64 :: "int \<Rightarrow> int" where
  "wrap64 x = (x + 2 ^ 63) mod 2 ^ 64 - 2 ^ 63"

record client =
  tokens :: int
  lastReset :: int

record RateLimiter =
  clients :: "string \<rightharpoonup> client"
  limit :: int
  window :: int

text \<open>
  \<open>NewRateLimiter\<close> also starts the \<open>cleanup\<close> goroutine, whose passes are the
  \<open>Sweep\<close> events below.
\<close>

definition NewRateLimiter :: "int \<Rightarrow> int \<Rightarrow> RateLimiter" where
  "NewRateLimiter l w = \<lparr>clients = Map.empty, limit = l, window = w\<rparr>"

text \<open>
  \<open>allow\<close>, run under the lock, so as one atomic step. The clock reading \<open>now\<close> is a
  parameter. The result is \<open>(allowed, remaining, resetTime)\<close> and the updated limiter: the
  record is reached through a pointer stored in the map, so every change to it is a change
  of the map.
\<close>

definition allow :: "RateLimiter \<Rightarrow> int \<Rightarrow> string \<Rightarrow> (bool \<times> int \<times> int) \<times> RateLimiter" where
  "allow rl now ip =
    (let cl = (case clients rl ip of
                 None \<Rightarrow> \<lparr>tokens = limit rl, lastReset = now\<rparr>
               | Some c \<Rightarrow> c);
         cl = (if now - lastReset cl > window rl
               then cl\<lparr>tokens := limit rl, lastReset := now\<rparr> else cl)
     in if tokens cl > 0 then
          (let cl = cl\<lparr>tokens := tokens cl - 1\<rparr>;
               resetTime = lastReset cl + window rl
           in ((True, tokens cl, resetTime), rl\<lparr>clients := (clients rl)(ip \<mapsto> cl)\<rparr>))
        else
          (let resetTime = lastReset cl + window rl
           in ((False, 0, resetTime), rl\<lparr>clients := (clients rl)(ip \<mapsto> cl)\<rparr>)))"

text \<open>One pass of the loop of \<open>cleanup\<close> (one tick of its ticker), at clock reading \<open>now\<close>.\<close>

definition cleanup_pass :: "RateLimiter \<Rightarrow> int \<Rightarrow> RateLimiter" where
  "cleanup_pass rl now =
     rl\<lparr>clients := (\<lambda>ip. case clients rl ip of
                          None \<Rightarrow> None
                        | Some cl \<Rightarrow>
                            if now - lastReset cl > wrap64 (window rl * 2) then None
                            else Some cl)\<rparr>"

text \<open>
  A window of key \<open>k\<close> starts with a call at \<open>t0\<close> when the key has no record yet, or
  its record's window has run out at \<open>t0\<close>.
\<close>

definition window_starts :: "RateLimiter \<Rightarrow> string \<Rightarrow> int \<Rightarrow> bool" where
  "window_starts rl k t0 \<longleftrightarrow>
     (case clients rl k of None \<Rightarrow> True | Some c \<Rightarrow> t0 - lastReset c > window rl)"

text \<open>The limiter's life: calls of \<open>allow\<close> by any client and passes of the sweep.\<close>

datatype event = Allow string int | Sweep int

fun step :: "RateLimiter \<Rightarrow> event \<Rightarrow> RateLimiter" where
  "step rl (Allow ip now) = snd (allow rl now ip)"
| "step rl (Sweep now) = cleanup_pass rl now"

fun run :: "RateLimiter \<Rightarrow> event list \<Rightarrow> RateLimiter" where
  "run rl [] = rl"
| "run rl (e # es) = run (step rl e) es"

fun event_time :: "event \<Rightarrow> int" where
  "event_time (Allow ip now) = now"
| "event_time (Sweep now) = now"

fun is_call :: "string \<Rightarrow> event \<Rightarrow> bool" where
  "is_call k (Allow ip now) = (ip = k)"
| "is_call k (Sweep now) = False"

definition calls_of :: "string \<Rightarrow> event list \<Rightarrow> nat" where
  "calls_of k es = length (filter (is_call k) es)"

text \<open>What the calls of client \<open>k\<close> return in a run, in order.\<close>

fun results_for :: "string \<Rightarrow> RateLimiter \<Rightarrow> event list \<Rightarrow> (bool \<times> int \<times> int) list" where
  "results_for k rl [] = []"
| "results_for k rl (e # es) =
     (case e of
        Allow ip now \<Rightarrow> if ip = k then [fst (allow rl now ip)] else []
      | Sweep now \<Rightarrow> [])
     @ results_for k (step rl e) es"

definition budgets_in_range :: "RateLimiter \<Rightarrow> bool" where
  "budgets_in_range rl \<longleftrightarrow>
     (\<forall>ip c. clients rl ip = Some c \<longrightarrow> 0 \<le> tokens c \<and> tokens c \<le> limit rl)"

section \<open>Registration requests and the age check (services: validateRegistrationRequest)\<close>

text \<open>
  The model reads a \<open>time.Time\<close> that is used as a calendar date through its civil
  fields in its own location: year, month (1 to 12), day of the month, and the
  nanoseconds since midnight.
\<close>

record Time =
  Year :: int
  Month :: nat
  Day :: nat
  Nanos :: nat

definition Date :: "int \<Rightarrow> nat \<Rightarrow> nat \<Rightarrow> Time" where
  "Date y m d = \<lparr>Year = y, Month = m, Day = d, Nanos = 0\<rparr>"

definition isLeap :: "int \<Rightarrow> bool" where
  "isLeap y \<longleftrightarrow> y mod 4 = 0 \<and> (y mod 100 \<noteq> 0 \<or> y mod 400 = 0)"

text \<open>Days of a non-leap year before the first of the month.\<close>

fun daysBefore :: "nat \<Rightarrow> nat" where
  "daysBefore m =
     (if m = 1 then 0 else if m = 2 then 31 else if m = 3 then 59 else if m = 4 then 90
      else if m = 5 then 120 else if m = 6 then 151 else if m = 7 then 181
      else if m = 8 then 212 else if m = 9 then 243 else if m = 10 then 273
      else if m = 11 then 304 else if m = 12 then 334 else 0)"

definition daysIn :: "int \<Rightarrow> nat \<Rightarrow> nat" where
  "daysIn y m =
     (if m = 2 then (if isLeap y then 29 else 28)
      else if m = 4 \<or> m = 6 \<or> m = 9 \<or> m = 11 then 30 else 31)"

definition valid_date :: "Time \<Rightarrow> bool" where
  "valid_date t \<longleftrightarrow> 1 \<le> Month t \<and> Month t \<le> 12 \<and> 1 \<le> Day t \<and> Day t \<le> daysIn (Year t) (Month t)"

text \<open>\<open>Time.YearDay\<close>: the day of the year, 1 to 365, or to 366 in a leap year.\<close>

definition YearDay :: "Time \<Rightarrow> int" where
  "YearDay t =
     int (daysBefore (Month t) + Day t) + (if isLeap (Year t) \<and> 3 \<le> Month t then 1 else 0)"

text \<open>\<open>Time.IsZero\<close>: the zero instant is January 1 of year 1, 00:00:00 UTC.\<close>

definition IsZero :: "Time \<Rightarrow> bool" where
  "IsZero t \<longleftrightarrow> Year t = 1 \<and> Month t = 1 \<and> Day t = 1 \<and> Nanos t = 0"

record RegisterRequest =
  Email :: string
  Phone :: string
  Password :: string
  FirstName :: string
  LastName :: string
  DateOfBirth :: Time
  AddressLine1 :: string
  AddressLine2 :: string
  City :: string
  Postcode :: string
  Country :: string

text \<open>
  \<open>validateRegistrationRequest\<close>. Its readings of \<open>time.Now()\<close> are one parameter
  \<open>today\<close>, the current local date.
\<close>

definition validateRegistrationRequest :: "Time \<Rightarrow> RegisterRequest \<Rightarrow> error option" where
  "validateRegistrationRequest today req =
    (if Email req = [] then Some (NewBadRequest ''email is required'')
     else if Password req = [] then Some (NewBadRequest ''password is required'')
     else if FirstName req = [] then Some (NewBadRequest ''first name is required'')
     else if LastName req = [] then Some (NewBadRequest ''last name is required'')
     else if IsZero (DateOfBirth req) then Some (NewBadRequest ''date of birth is required'')
     else if AddressLine1 req = [] then Some (NewBadRequest ''address line 1 is required'')
     else if City req = [] then Some (NewBadRequest ''city is required'')
     else if Postcode req = [] then Some (NewBadRequest ''postcode is required'')
     else if Country req = [] then Some (NewBadRequest ''country is required'')
     else
       (let age = Year today - Year (DateOfBirth req) in
        if age < 18 then
          Some (NewBadRequest ''you must be at least 18 years old to register'')
        else
          (let age = (if YearDay today < YearDay (DateOfBirth req) then age - 1 else age) in
           if age < 18 then
             Some (NewBadRequest ''you must be at least 18 years old to register'')
           else None)))"

subsection \<open>The age in the words of the specification\<close>

text \<open>
  The age in completed years on a day: the difference of the calendar years, less one
  when the birthday (month and day) of the current year is still to come.
\<close>

definition age_on :: "Time \<Rightarrow> Time \<Rightarrow> int" where
  "age_on today dob =
     Year today - Year dob
       - (if Month today < Month dob \<or> (Month today = Month dob \<and> Day today < Day dob)
          then 1 else 0)"

definition at_least_18 :: "Time \<Rightarrow> Time \<Rightarrow> bool" where
  "at_least_18 today dob \<longleftrightarrow> 18 \<le> age_on today dob"

section \<open>Token engine (utils: generateToken, ValidateToken) over golang-jwt/jwt/v5\<close>

text \<open>
  The functions of package utils are modelled on the documented behaviour of the libraries
  they call: \<open>github.com/golang-jwt/jwt/v5\<close> at the version of \<open>go.mod\<close> (v5.2.0),
  \<open>encoding/json\<close> and \<open>crypto/hmac\<close>.
  \<^item> \<open>NewNumericDate(t)\<close> is \<open>t.Truncate(TimePrecision)\<close>, and \<open>TimePrecision\<close> is
    \<open>time.Second\<close>: a numeric date holds whole seconds.
  \<^item> \<open>ParseWithClaims\<close> decodes the three segments, finds the signing method of the header,
    calls the key function, verifies the signature over the first two segments, and then
    validates the claims: the token is expired unless \<open>now\<close> is before \<open>exp\<close>, and not
    valid yet when \<open>now\<close> is before \<open>nbf\<close>; \<open>iat\<close> is not checked without the option
    for it.
  \<^item> A token is kept in decoded form: the text of its first two segments, the method and
    the claims that this text decodes to, and the bytes of its signature. A string that
    is not the serialisation of a token is \<open>Raw\<close>. The serialisation of header and claims
    (JSON, base64url) is a function \<open>SigningString\<close>, a parameter of the model.
  \<^item> JSON carries a string with every byte that is not part of well-formed UTF-8 replaced
    by U+FFFD (\<open>json_string\<close>).
  \<^item> The signature is HMAC as \<open>crypto/hmac\<close> computes it: the key is hashed when longer
    than the block of the hash, filled with zero bytes to the block, and combined with the
    inner and outer pads. The hash functions themselves (SHA-256, SHA-384, SHA-512) are a
    parameter of the model, \<open>Sum\<close>.
  Instants are integers, in nanoseconds since the Unix epoch; the clock reading of
  \<open>time.Now()\<close> is the parameter \<open>now\<close>.
\<close>

definition Second :: int where
  "Second = 1000000000"

definition Minute :: int where
  "Minute = 60 * Second"

definition NewNumericDate :: "int \<Rightarrow> int" where
  "NewNumericDate t = t - t mod Second"

record TokenClaims =
  UserID :: string
  Email :: string
  TokenType :: string

text \<open>
  Of \<open>jwt.RegisteredClaims\<close> the three dates; issuer, subject, audience and identifier
  are never set by \<open>generateToken\<close> and never read by \<open>ValidateToken\<close>.
\<close>

record RegisteredClaims =
  ExpiresAt :: "int option"
  IssuedAt :: "int option"
  NotBefore :: "int option"

record customClaims = RegisteredClaims +
  UserID :: string
  Email :: string
  TokenType :: string

text \<open>The \<open>alg\<close> of the header: the three HMAC methods, or any other value.\<close>

datatype alg = HS256 | HS384 | HS512 | OtherAlg string

datatype jws = JWS string alg customClaims string

datatype token_string = Raw string | Compact jws

text \<open>The text of the first two segments of a token, over which it is signed.\<close>

fun signing_text :: "token_string \<Rightarrow> string" where
  "signing_text (Raw s) = []"
| "signing_text (Compact (JWS text a claims sig)) = text"

record codec =
  Sum :: "alg \<Rightarrow> string \<Rightarrow> string"
  SigningString :: "alg \<Rightarrow> customClaims \<Rightarrow> string"

subsection \<open>Strings in JSON\<close>

text \<open>
  \<open>conts n s\<close>: the string starts with \<open>n\<close> continuation bytes (80 to BF).
  \<open>second_ok lo hi n s\<close>: it starts with a byte from \<open>lo\<close> to \<open>hi\<close> and then \<open>n\<close>
  continuation bytes.
\<close>

fun conts :: "nat \<Rightarrow> string \<Rightarrow> bool" where
  "conts 0 s = True"
| "conts (Suc n) [] = False"
| "conts (Suc n) (c # s) = ((128::nat) \<le> of_char c \<and> (of_char c :: nat) \<le> 191 \<and> conts n s)"

fun second_ok :: "nat \<Rightarrow> nat \<Rightarrow> nat \<Rightarrow> string \<Rightarrow> bool" where
  "second_ok lo hi n [] = False"
| "second_ok lo hi n (c # s) = (lo \<le> of_char c \<and> (of_char c :: nat) \<le> hi \<and> conts n s)"

text \<open>
  The number of bytes of the well-formed UTF-8 sequence at the head of a string, as
  \<open>utf8.DecodeRuneInString\<close> accepts it (no overlong forms, no surrogates, nothing above
  U+10FFFF); 0 when there is none.
\<close>

fun rune_size :: "string \<Rightarrow> nat" where
  "rune_size [] = 0"
| "rune_size (a # s) =
     (let x = (of_char a :: nat) in
      if x < 128 then 1
      else if 194 \<le> x \<and> x \<le> 223 then (if second_ok 128 191 0 s then 2 else 0)
      else if x = 224 then (if second_ok 160 191 1 s then 3 else 0)
      else if (225 \<le> x \<and> x \<le> 236) \<or> x = 238 \<or> x = 239
        then (if second_ok 128 191 1 s then 3 else 0)
      else if x = 237 then (if second_ok 128 159 1 s then 3 else 0)
      else if x = 240 then (if second_ok 144 191 2 s then 4 else 0)
      else if 241 \<le> x \<and> x \<le> 243 then (if second_ok 128 191 2 s then 4 else 0)
      else if x = 244 then (if second_ok 128 143 2 s then 4 else 0)
      else 0)"

text \<open>
  A string after \<open>json.Marshal\<close> and \<open>json.Unmarshal\<close>: well-formed sequences are kept
  (\<open>k\<close> counts the bytes still to copy of the sequence under way), and every other byte
  becomes the three bytes of U+FFFD.
\<close>

fun json_copy :: "nat \<Rightarrow> string \<Rightarrow> string" where
  "json_copy k [] = []"
| "json_copy (Suc k) (c # s) = c # json_copy k s"
| "json_copy 0 (c # s) =
     (case rune_size (c # s) of
        0 \<Rightarrow> [CHR 0xEF, CHR 0xBF, CHR 0xBD] @ json_copy 0 s
      | Suc n \<Rightarrow> c # json_copy n s)"

definition json_string :: "string \<Rightarrow> string" where
  "json_string s = json_copy 0 s"

definition valid_utf8 :: "string \<Rightarrow> bool" where
  "valid_utf8 s \<longleftrightarrow> json_string s = s"

subsection \<open>HMAC\<close>

unbundle bit_operations_syntax

definition xor_byte :: "nat \<Rightarrow> char \<Rightarrow> char" where
  "xor_byte p c = char_of ((of_char c :: nat) XOR p)"

text \<open>The block size of the hash of a method, in bytes.\<close>

fun BlockSize :: "alg \<Rightarrow> nat" where
  "BlockSize HS256 = 64"
| "BlockSize HS384 = 128"
| "BlockSize HS512 = 128"
| "BlockSize (OtherAlg a) = 0"

text \<open>
  \<open>hmac.New\<close>: a key longer than the block is hashed; the key is then copied into a
  block of zero bytes.
\<close>

definition key_block :: "codec \<Rightarrow> alg \<Rightarrow> string \<Rightarrow> string" where
  "key_block cd a key =
     (let k = (if length key > BlockSize a then Sum cd a key else key)
      in take (BlockSize a) (k @ replicate (BlockSize a) (CHR 0x00)))"

definition hmac :: "codec \<Rightarrow> alg \<Rightarrow> string \<Rightarrow> string \<Rightarrow> string" where
  "hmac cd a key msg =
     Sum cd a (map (xor_byte 0x5C) (key_block cd a key)
               @ Sum cd a (map (xor_byte 0x36) (key_block cd a key) @ msg))"

subsection \<open>Parsing and validation\<close>

datatype claims_error = jwt_ErrTokenExpired | jwt_ErrTokenNotValidYet

datatype jwt_error =
    jwt_ErrTokenMalformed
  | jwt_ErrTokenUnverifiable
  | jwt_ErrTokenSignatureInvalid
  | jwt_ErrTokenInvalidClaims "claims_error list"

fun claims_error_text :: "claims_error \<Rightarrow> string" where
  "claims_error_text jwt_ErrTokenExpired = ''token is expired''"
| "claims_error_text jwt_ErrTokenNotValidYet = ''token is not valid yet''"

fun join_texts :: "string list \<Rightarrow> string" where
  "join_texts [] = []"
| "join_texts [x] = x"
| "join_texts (x # y # ys) = x @ '', '' @ join_texts (y # ys)"

text \<open>
  The message of a library error, up to the detail that follows the first phrase of a
  malformed or unverifiable token (a detail that never holds the words tested below).
\<close>

fun jwt_Error :: "jwt_error \<Rightarrow> string" where
  "jwt_Error jwt_ErrTokenMalformed = ''token is malformed''"
| "jwt_Error jwt_ErrTokenUnverifiable = ''token is unverifiable''"
| "jwt_Error jwt_ErrTokenSignatureInvalid =
     ''token signature is invalid: signature is invalid''"
| "jwt_Error (jwt_ErrTokenInvalidClaims es) =
     ''token has invalid claims: '' @ join_texts (map claims_error_text es)"

text \<open>The validator of the library, with no leeway and no expected issuer or audience.\<close>

definition Validate :: "int \<Rightarrow> customClaims \<Rightarrow> claims_error list" where
  "Validate now claims =
     (case ExpiresAt claims of
        None \<Rightarrow> []
      | Some exp \<Rightarrow> if now < exp then [] else [jwt_ErrTokenExpired])
     @ (case NotBefore claims of
          None \<Rightarrow> []
        | Some nbf \<Rightarrow> if now < nbf then [jwt_ErrTokenNotValidYet] else [])"

text \<open>
  The key function of \<open>ValidateToken\<close>: the secret for an HMAC method, an error for any
  other method.
\<close>

fun keyFunc :: "string \<Rightarrow> alg \<Rightarrow> string option" where
  "keyFunc secret (OtherAlg a) = None"
| "keyFunc secret a = Some secret"

fun ParseWithClaims ::
  "codec \<Rightarrow> token_string \<Rightarrow> (alg \<Rightarrow> string option) \<Rightarrow> int \<Rightarrow> jwt_error + customClaims"
  where
  "ParseWithClaims cd (Raw s) kf now = Inl jwt_ErrTokenMalformed"
| "ParseWithClaims cd (Compact (JWS text a claims sig)) kf now =
     (case kf a of
        None \<Rightarrow> Inl jwt_ErrTokenUnverifiable
      | Some key \<Rightarrow>
          if sig \<noteq> hmac cd a key text then Inl jwt_ErrTokenSignatureInvalid
          else (case Validate now claims of
                  [] \<Rightarrow> Inr claims
                | e # es \<Rightarrow> Inl (jwt_ErrTokenInvalidClaims (e # es))))"

text \<open>\<open>strings.HasPrefix\<close> and \<open>strings.Contains\<close>.\<close>

fun HasPrefix :: "string \<Rightarrow> string \<Rightarrow> bool" where
  "HasPrefix s [] = True"
| "HasPrefix [] (p # ps) = False"
| "HasPrefix (c # cs) (p # ps) = (c = p \<and> HasPrefix cs ps)"

fun Contains :: "string \<Rightarrow> string \<Rightarrow> bool" where
  "Contains [] sub = (sub = [])"
| "Contains (c # cs) sub = (HasPrefix (c # cs) sub \<or> Contains cs sub)"

text \<open>
  \<open>generateToken\<close>. Signing with a byte slice as HMAC key does not fail, so the error
  branch after \<open>SignedString\<close> is not reached. The claims of the token are the claims as
  JSON carries them.
\<close>

definition generateToken ::
  "codec \<Rightarrow> string \<Rightarrow> string \<Rightarrow> string \<Rightarrow> int \<Rightarrow> string \<Rightarrow> int \<Rightarrow> error + token_string"
  where
  "generateToken cd userID email tokenType expiry secret now =
    (if userID = [] then Inl (Errorf ''user ID cannot be empty'')
     else if email = [] then Inl (Errorf ''email cannot be empty'')
     else if secret = [] then Inl (Errorf ''secret cannot be empty'')
     else if expiry \<le> 0 then Inl (Errorf ''expiry must be positive'')
     else
       (let claims = \<lparr>ExpiresAt = Some (NewNumericDate (now + expiry)),
                      IssuedAt = Some (NewNumericDate now),
                      NotBefore = Some (NewNumericDate now),
                      UserID = json_string userID, Email = json_string email,
                      TokenType = json_string tokenType\<rparr>;
            text = SigningString cd HS256 claims
        in Inr (Compact (JWS text HS256 claims (hmac cd HS256 secret text)))))"

definition GenerateAccessToken ::
  "codec \<Rightarrow> string \<Rightarrow> string \<Rightarrow> int \<Rightarrow> string \<Rightarrow> int \<Rightarrow> error + token_string" where
  "GenerateAccessToken cd userID email expiry secret now =
     generateToken cd userID email ''access'' expiry secret now"

definition GenerateRefreshToken ::
  "codec \<Rightarrow> string \<Rightarrow> string \<Rightarrow> int \<Rightarrow> string \<Rightarrow> int \<Rightarrow> error + token_string" where
  "GenerateRefreshToken cd userID email expiry secret now =
     generateToken cd userID email ''refresh'' expiry secret now"

text \<open>
  \<open>ValidateToken\<close>. A parse without error leaves claims of the expected type in a
  valid token, so the check of \<open>ok\<close> and \<open>token.Valid\<close> after it does not fail. The two
  messages of failure are the texts of \<open>ErrTokenExpired\<close> and, as a prefix, of
  \<open>ErrTokenInvalid\<close>.
\<close>

definition ValidateToken ::
  "codec \<Rightarrow> token_string \<Rightarrow> string \<Rightarrow> int \<Rightarrow> error + TokenClaims" where
  "ValidateToken cd tokenString secret now =
    (if tokenString = Raw [] then Inl (Errorf ''token cannot be empty'')
     else if secret = [] then Inl (Errorf ''secret cannot be empty'')
     else
       (case ParseWithClaims cd tokenString (keyFunc secret) now of
          Inl err \<Rightarrow>
            if Contains (jwt_Error err) ''token has expired''
               \<or> Contains (jwt_Error err) ''token is expired''
            then Inl (Errorf ''token has expired'')
            else Inl (Errorf (''invalid token: '' @ jwt_Error err))
        | Inr claims \<Rightarrow>
            Inr \<lparr>TokenClaims.UserID = customClaims.UserID claims,
                 TokenClaims.Email = customClaims.Email claims,
                 TokenClaims.TokenType = customClaims.TokenType claims\<rparr>))"

section \<open>Credential service (services: AuthService)\<close>

text \<open>A \<open>uuid.UUID\<close> is its 128-bit value.\<close>

type_synonym uuid = nat

record User =
  ID :: uuid
  Email :: string
  Phone :: string
  PasswordHash :: string
  FirstName :: string
  LastName :: string
  DateOfBirth :: Time
  AddressLine1 :: string
  AddressLine2 :: string
  City :: string
  Postcode :: string
  Country :: string
  KYCStatus :: string
  KYCVerifiedAt :: "int option"
  IsActive :: bool
  CreatedAt :: int
  UpdatedAt :: int

record LoginResponse =
  AccessToken :: token_string
  RefreshToken :: token_string
  ExpiresIn :: int
  TokenType :: string
  User :: User

record RefreshTokenResponse =
  AccessToken :: token_string
  ExpiresIn :: int
  TokenType :: string

text \<open>
  The methods of the interface \<open>repository.UserRepository\<close> that the service calls. A
  lookup returns Go's pair of a user pointer (possibly nil) and an error (possibly nil);
  \<open>Create\<close> receives a pointer and may change the user it points to, so it returns the
  user as it leaves the call, with the error. Each operation of the service calls each
  method at most once, so a repository is the answers it gives during the operation.
\<close>

record UserRepository =
  Create :: "User \<Rightarrow> User \<times> error option"
  GetByID :: "uuid \<Rightarrow> User option \<times> error option"
  GetByEmail :: "string \<Rightarrow> User option \<times> error option"

text \<open>
  The functions of other libraries that the service calls: \<open>google/uuid\<close> (\<open>New\<close>,
  \<open>Parse\<close>, \<open>String\<close>), \<open>x/crypto/bcrypt\<close> (salted hashing and comparison),
  \<open>net/mail\<close> (\<open>ParseAddress\<close>, giving the address part), the conversion
  \<open>int(d.Seconds())\<close> of a duration through floating point, and the hash functions and
  the serialisation behind the tokens (\<open>jwt\<close>).
\<close>

record library =
  jwt :: codec
  uuid_New :: uuid
  uuid_Parse :: "string \<Rightarrow> uuid option"
  uuid_String :: "uuid \<Rightarrow> string"
  GenerateFromPassword :: "string \<Rightarrow> error + string"
  CompareHashAndPassword :: "string \<Rightarrow> string \<Rightarrow> error option"
  ParseAddress :: "string \<Rightarrow> string option"
  Seconds :: "int \<Rightarrow> int"

record AuthService =
  userRepo :: UserRepository
  jwtSecret :: string
  accessTokenDuration :: int
  refreshTokenDuration :: int

definition NewAuthService :: "UserRepository \<Rightarrow> string \<Rightarrow> int \<Rightarrow> int \<Rightarrow> AuthService" where
  "NewAuthService repo secret accessDuration refreshDuration =
     \<lparr>userRepo = repo, jwtSecret = secret, accessTokenDuration = accessDuration,
      refreshTokenDuration = refreshDuration\<rparr>"

subsection \<open>Password hashing (utils: HashPassword, ComparePasswords)\<close>

definition HashPassword :: "library \<Rightarrow> string \<Rightarrow> error + string" where
  "HashPassword lib password =
    (if password = [] then Inl (Errorf ''password cannot be empty'')
     else if length password > 72 then Inl (Errorf ''password too long: maximum 72 bytes'')
     else (case GenerateFromPassword lib password of
             Inl err \<Rightarrow> Inl (Errorf (''failed to hash password: '' @ error_string err))
           | Inr hash \<Rightarrow> Inr hash))"

definition ComparePasswords :: "library \<Rightarrow> string \<Rightarrow> string \<Rightarrow> error option" where
  "ComparePasswords lib hashedPassword password =
    (case CompareHashAndPassword lib hashedPassword password of
       Some err \<Rightarrow> Some (Errorf ''invalid password'')
     | None \<Rightarrow> None)"

subsection \<open>Email\<close>

text \<open>
  \<open>strings.TrimSpace\<close>, as it acts on ASCII white space. (Go also trims the other
  white space of Unicode.)
\<close>

definition is_space :: "char \<Rightarrow> bool" where
  "is_space c \<longleftrightarrow> (of_char c :: nat) \<in> {9, 10, 11, 12, 13, 32}"

definition TrimSpace :: "string \<Rightarrow> string" where
  "TrimSpace s = rev (dropWhile is_space (rev (dropWhile is_space s)))"

definition validateEmail :: "library \<Rightarrow> string \<Rightarrow> error option" where
  "validateEmail lib email0 =
    (let email = TrimSpace email0 in
     if email = [] then Some (NewBadRequest ''email cannot be empty'')
     else (case ParseAddress lib email of
             None \<Rightarrow> Some (NewBadRequest ''invalid email format'')
           | Some address \<Rightarrow>
               if Contains address '' '' then Some (NewBadRequest ''invalid email format'')
               else if length address > 254 then Some (NewBadRequest ''email too long'')
               else None))"

subsection \<open>The operations\<close>

definition generateAccessToken ::
  "library \<Rightarrow> AuthService \<Rightarrow> int \<Rightarrow> string \<Rightarrow> string \<Rightarrow> error + token_string" where
  "generateAccessToken lib s now userID email =
     GenerateAccessToken (jwt lib) userID email (accessTokenDuration s) (jwtSecret s) now"

definition generateRefreshToken ::
  "library \<Rightarrow> AuthService \<Rightarrow> int \<Rightarrow> string \<Rightarrow> string \<Rightarrow> error + token_string" where
  "generateRefreshToken lib s now userID email =
     GenerateRefreshToken (jwt lib) userID email (refreshTokenDuration s) (jwtSecret s) now"

text \<open>
  \<open>Register\<close>. The current date \<open>today\<close> serves the age check and the instant \<open>now\<close>
  the time stamps. (The source also assigns a field \<open>Region\<close> that neither the request
  nor the user has.)
\<close>

definition Register ::
  "library \<Rightarrow> AuthService \<Rightarrow> Time \<Rightarrow> int \<Rightarrow> RegisterRequest \<Rightarrow> error + User" where
  "Register lib s today now req =
    (case validateRegistrationRequest today req of
       Some err \<Rightarrow> Inl err
     | None \<Rightarrow>
    (case validateEmail lib (RegisterRequest.Email req) of
       Some err \<Rightarrow> Inl err
     | None \<Rightarrow>
    (case validatePassword (Password req) of
       Some err \<Rightarrow> Inl err
     | None \<Rightarrow>
    (case GetByEmail (userRepo s) (RegisterRequest.Email req) of
       (Some existingUser, None) \<Rightarrow> Inl (NewConflict ''user with this email already exists'')
     | _ \<Rightarrow>
    (case HashPassword lib (Password req) of
       Inl err \<Rightarrow> Inl (Errorf (''failed to hash password: '' @ error_string err))
     | Inr passwordHash \<Rightarrow>
        (let user =
           \<lparr>ID = uuid_New lib,
            User.Email = ToLower (TrimSpace (RegisterRequest.Email req)),
            User.Phone = RegisterRequest.Phone req,
            PasswordHash = passwordHash,
            User.FirstName = RegisterRequest.FirstName req,
            User.LastName = RegisterRequest.LastName req,
            User.DateOfBirth = RegisterRequest.DateOfBirth req,
            User.AddressLine1 = RegisterRequest.AddressLine1 req,
            User.AddressLine2 = RegisterRequest.AddressLine2 req,
            User.City = RegisterRequest.City req,
            User.Postcode = RegisterRequest.Postcode req,
            User.Country = RegisterRequest.Country req,
            KYCStatus = ''pending'',
            KYCVerifiedAt = None,
            IsActive = True,
            CreatedAt = now,
            UpdatedAt = now\<rparr>
         in (case Create (userRepo s) user of
               (user, Some err) \<Rightarrow>
                 Inl (Errorf (''failed to create user: '' @ error_string err))
             | (user, None) \<Rightarrow> Inr (user\<lparr>PasswordHash := []\<rparr>))))))))"

definition nil_dereference :: error where
  "nil_dereference = Panic ''runtime error: invalid memory address or nil pointer dereference''"

text \<open>
  \<open>Login\<close>. (The source names the comparison \<open>utils.ComparePassword\<close>; package utils
  has \<open>ComparePasswords\<close>.)
\<close>

definition Login ::
  "library \<Rightarrow> AuthService \<Rightarrow> int \<Rightarrow> string \<Rightarrow> string \<Rightarrow> error + LoginResponse" where
  "Login lib s now email password =
    (if email = [] then Inl (NewBadRequest ''email is required'')
     else if password = [] then Inl (NewBadRequest ''password is required'')
     else
    (case GetByEmail (userRepo s) (ToLower (TrimSpace email)) of
       (u, Some err) \<Rightarrow> Inl (NewUnauthorized ''invalid email or password'')
     | (None, None) \<Rightarrow> Inl nil_dereference
     | (Some user, None) \<Rightarrow>
        if \<not> IsActive user then Inl (NewForbidden ''account is inactive'')
        else
       (case ComparePasswords lib (PasswordHash user) password of
          Some err \<Rightarrow> Inl (NewUnauthorized ''invalid email or password'')
        | None \<Rightarrow>
       (case generateAccessToken lib s now (uuid_String lib (ID user)) (User.Email user) of
          Inl err \<Rightarrow>
            Inl (Errorf (''failed to generate access token: '' @ error_string err))
        | Inr accessToken \<Rightarrow>
       (case generateRefreshToken lib s now (uuid_String lib (ID user)) (User.Email user) of
          Inl err \<Rightarrow>
            Inl (Errorf (''failed to generate refresh token: '' @ error_string err))
        | Inr refreshToken \<Rightarrow>
            Inr \<lparr>LoginResponse.AccessToken = accessToken,
                 RefreshToken = refreshToken,
                 LoginResponse.ExpiresIn = Seconds lib (accessTokenDuration s),
                 LoginResponse.TokenType = ''Bearer'',
                 User = user\<lparr>PasswordHash := []\<rparr>\<rparr>)))))"

text \<open>
  \<open>RefreshToken\<close> and \<open>ValidateAccessToken\<close>. (The source reads the class of the token
  as \<open>claims.Type\<close>; the field of \<open>TokenClaims\<close> is \<open>TokenType\<close>.)
\<close>

definition RefreshToken ::
  "library \<Rightarrow> AuthService \<Rightarrow> int \<Rightarrow> token_string \<Rightarrow> error + RefreshTokenResponse" where
  "RefreshToken lib s now refreshToken =
    (if refreshToken = Raw [] then Inl (NewBadRequest ''refresh token is required'')
     else
    (case ValidateToken (jwt lib) refreshToken (jwtSecret s) now of
       Inl err \<Rightarrow> Inl (NewUnauthorized ''invalid or expired refresh token'')
     | Inr claims \<Rightarrow>
        if TokenClaims.TokenType claims \<noteq> ''refresh''
        then Inl (NewUnauthorized ''invalid token type'')
        else
       (case uuid_Parse lib (TokenClaims.UserID claims) of
          None \<Rightarrow> Inl (NewUnauthorized ''invalid user ID in token'')
        | Some userID \<Rightarrow>
       (case GetByID (userRepo s) userID of
          (u, Some err) \<Rightarrow> Inl (NewNotFound ''user not found'')
        | (None, None) \<Rightarrow> Inl nil_dereference
        | (Some user, None) \<Rightarrow>
           if \<not> IsActive user then Inl (NewForbidden ''account is inactive'')
           else
          (case generateAccessToken lib s now (uuid_String lib (ID user)) (User.Email user) of
             Inl err \<Rightarrow>
               Inl (Errorf (''failed to generate access token: '' @ error_string err))
           | Inr accessToken \<Rightarrow>
               Inr \<lparr>RefreshTokenResponse.AccessToken = accessToken,
                    RefreshTokenResponse.ExpiresIn = Seconds lib (accessTokenDuration s),
                    RefreshTokenResponse.TokenType = ''Bearer''\<rparr>)))))"

definition ValidateAccessToken ::
  "library \<Rightarrow> AuthService \<Rightarrow> int \<Rightarrow> token_string \<Rightarrow> error + User" where
  "ValidateAccessToken lib s now accessToken =
    (if accessToken = Raw [] then Inl (NewBadRequest ''access token is required'')
     else
    (case ValidateToken (jwt lib) accessToken (jwtSecret s) now of
       Inl err \<Rightarrow> Inl (NewUnauthorized ''invalid or expired access token'')
     | Inr claims \<Rightarrow>
        if TokenClaims.TokenType claims \<noteq> ''access''
        then Inl (NewUnauthorized ''invalid token type'')
        else
       (case uuid_Parse lib (TokenClaims.UserID claims) of
          None \<Rightarrow> Inl (NewUnauthorized ''invalid user ID in token'')
        | Some userID \<Rightarrow>
       (case GetByID (userRepo s) userID of
          (u, Some err) \<Rightarrow> Inl (NewNotFound ''user not found'')
        | (None, None) \<Rightarrow> Inl nil_dereference
        | (Some user, None) \<Rightarrow>
           if \<not> IsActive user then Inl (NewForbidden ''account is inactive'')
           else Inr (user\<lparr>PasswordHash := []\<rparr>)))))"

section \<open>Test doubles (services: auth_service_test.go)\<close>

text \<open>
  The fixtures of the service's tests, for the concrete runs below: the secret and the
  durations of the tests, a user as the mock repository returns it, and repositories that
  know no user or one user. The library functions are stand-ins with the interface of the
  real ones: one UUID with its text, a comparison that accepts one password for the
  stored hash, and for the tokens a hash that returns its input and a serialisation that joins the
  three strings of the claims.
\<close>

definition test_secret :: string where
  "test_secret = ''test-secret-key-at-least-32-chars-long-for-security''"

definition test_hash :: string where
  "test_hash = ''$2a$12$LQv3c1yqBWVHxkd0LHAkCOYz6TtxMQJqhN8/LewY5GyYFJ5NQjeFi''"

definition test_uuid_text :: string where
  "test_uuid_text = ''6ba7b810-9dad-11d1-80b4-00c04fd430c8''"

definition test_codec :: codec where
  "test_codec =
     \<lparr>Sum = (\<lambda>a s. s),
      SigningString = (\<lambda>a c. customClaims.UserID c @ ''.'' @ customClaims.Email c @ ''.''
                             @ customClaims.TokenType c)\<rparr>"

definition test_library :: library where
  "test_library =
     \<lparr>jwt = test_codec,
      uuid_New = 1,
      uuid_Parse = (\<lambda>s. if s = test_uuid_text then Some 1 else None),
      uuid_String = (\<lambda>u. test_uuid_text),
      GenerateFromPassword = (\<lambda>p. Inr test_hash),
      CompareHashAndPassword =
        (\<lambda>h p. if h = test_hash \<and> p = ''SecurePass123!'' then None
               else Some (Errorf
                 ''crypto/bcrypt: hashedPassword is not the hash of the given password'')),
      ParseAddress = (\<lambda>s. if Contains s ''@'' then Some s else None),
      Seconds = (\<lambda>d. d div Second)\<rparr>"

definition mock_user :: "bool \<Rightarrow> User" where
  "mock_user active =
     \<lparr>ID = 1, User.Email = ''john.doe@example.com'', User.Phone = [],
      PasswordHash = test_hash, User.FirstName = ''John'', User.LastName = ''Doe'',
      User.DateOfBirth = Date 1990 1 1, User.AddressLine1 = [], User.AddressLine2 = [],
      User.City = [], User.Postcode = [], User.Country = [], KYCStatus = ''verified'',
      KYCVerifiedAt = None, IsActive = active, CreatedAt = 0, UpdatedAt = 0\<rparr>"

definition mock_repo_empty :: UserRepository where
  "mock_repo_empty =
     \<lparr>Create = (\<lambda>u. (u, None)),
      GetByID = (\<lambda>i. (None, Some (NewNotFound ''user not found''))),
      GetByEmail = (\<lambda>e. (None, Some (NewNotFound ''user not found'')))\<rparr>"

definition mock_repo_with :: "User \<Rightarrow> UserRepository" where
  "mock_repo_with user =
     \<lparr>Create = (\<lambda>u. (u, None)),
      GetByID = (\<lambda>i. if i = ID user then (Some user, None)
                      else (None, Some (NewNotFound ''user not found''))),
      GetByEmail = (\<lambda>e. if e = User.Email user then (Some user, None)
                         else (None, Some (NewNotFound ''user not found'')))\<rparr>"

definition test_service :: "UserRepository \<Rightarrow> AuthService" where
  "test_service repo = NewAuthService repo test_secret (15 * Minute) (7 * 24 * 60 * Minute)"

definition test_request :: "Time \<Rightarrow> RegisterRequest" where
  "test_request dob =
     \<lparr>RegisterRequest.Email = ''john.doe@example.com'', Phone = ''+447700900123'',
      Password = ''SecurePass123!'', FirstName = ''John'', LastName = ''Doe'',
      DateOfBirth = dob, AddressLine1 = ''123 Main St'', AddressLine2 = [],
      City = ''London'', Postcode = ''SW1A 1AA'', Country = ''UK''\<rparr>"

text \<open>The tokens issued at instant 0 for the user of the mock repository.\<close>

definition issued_access_token :: token_string where
  "issued_access_token =
     projr (GenerateAccessToken test_codec test_uuid_text ''john.doe@example.com'' (15 * Minute)
              test_secret 0)"

definition issued_refresh_token :: token_string where
  "issued_refresh_token =
     projr (GenerateRefreshToken test_codec test_uuid_text ''john.doe@example.com''
              (7 * 24 * 60 * Minute) test_secret 0)"

section \<open>Password policy: theorems\<close>

text \<open>
  C3, as stated, fails. The password \<open>12345678!\<close> has neither a lowercase nor an
  uppercase letter; evaluating the rules in the stated order (lowercase first) reports
  the missing lowercase letter, but both validators report the missing uppercase letter.
\<close>

theorem C3_order_counterexample:
  "\<not> range_any is_lower ''12345678!'' \<and> \<not> range_any is_upper ''12345678!''
   \<and> first_violation (concat (map service_rule spec_order)) ''12345678!''
       = Some (NewBadRequest ''password must contain at least one lowercase letter'')
   \<and> validatePassword ''12345678!''
       = Some (NewBadRequest ''password must contain at least one uppercase letter'')
   \<and> validatePassword ''12345678!''
       \<noteq> first_violation (concat (map service_rule spec_order)) ''12345678!''
   \<and> ValidatePasswordStrength ''12345678!''
       = Some (Errorf ''password must contain at least one uppercase letter'')
   \<and> ValidatePasswordStrength ''12345678!''
       \<noteq> first_violation (concat (map utils_rule spec_order)) ''12345678!''"
  by (simp add: validatePassword_def ValidatePasswordStrength_def MatchString_class_def
      spec_order_def is_lower_def is_upper_def NewBadRequest_def)

text \<open>
  C3, amended: both validators evaluate the rules in the order length in [8, 72],
  uppercase letter, lowercase letter, digit, symbol, deny-list (on the lowercased
  password), and report the error of the first violated rule. In particular a password of
  admissible length with neither an uppercase nor a lowercase letter fails with the
  missing-uppercase reason.
\<close>

theorem C3_validators_follow_code_order:
  "validatePassword p = first_violation (concat (map service_rule code_order)) p
   \<and> ValidatePasswordStrength p = first_violation (concat (map utils_rule code_order)) p
   \<and> (8 \<le> length p \<and> length p \<le> 72 \<and> \<not> range_any is_upper p \<longrightarrow>
        validatePassword p
          = Some (NewBadRequest ''password must contain at least one uppercase letter'')
        \<and> ValidatePasswordStrength p
          = Some (Errorf ''password must contain at least one uppercase letter''))"
  by (simp add: validatePassword_def ValidatePasswordStrength_def MatchString_class_def
      code_order_def)

theorem C3_validators_follow_code_order_witness:
  "8 \<le> length ''12345678!'' \<and> length ''12345678!'' \<le> 72
   \<and> \<not> range_any is_upper ''12345678!''
   \<and> validatePassword ''12345678!''
       = Some (NewBadRequest ''password must contain at least one uppercase letter'')
   \<and> ValidatePasswordStrength ''12345678!''
       = Some (Errorf ''password must contain at least one uppercase letter'')
   \<and> validatePassword ''12345678!''
       = first_violation (concat (map service_rule code_order)) ''12345678!''"
proof -
  have h: "8 \<le> length ''12345678!'' \<and> length ''12345678!'' \<le> 72
      \<and> \<not> range_any is_upper ''12345678!''"
    by (simp add: is_upper_def)
  from C3_validators_follow_code_order [of "''12345678!''"] h show ?thesis
    by blast
qed

section \<open>Admission controller: theorems\<close>

lemma wrap64_twice: "- (2 ^ 62) \<le> w \<Longrightarrow> w < 2 ^ 62 \<Longrightarrow> wrap64 (w * 2) = w * 2"
  by (simp add: wrap64_def)

lemma allow_limit_window [simp]:
  "limit (snd (allow rl now ip)) = limit rl" "window (snd (allow rl now ip)) = window rl"
  by (simp_all add: allow_def Let_def)

lemma allow_in_window:
  assumes "clients rl k = Some c" "\<not> (t - lastReset c > window rl)"
  shows "allow rl t k =
     (if tokens c > 0
      then ((True, tokens c - 1, lastReset c + window rl),
            rl\<lparr>clients := (clients rl)(k \<mapsto> c\<lparr>tokens := tokens c - 1\<rparr>)\<rparr>)
      else ((False, 0, lastReset c + window rl), rl\<lparr>clients := (clients rl)(k \<mapsto> c)\<rparr>))"
  using assms by (simp add: allow_def Let_def)

lemma step_config [simp]:
  "limit (step rl e) = limit rl" "window (step rl e) = window rl"
  by (cases e; simp add: cleanup_pass_def)+

lemma run_config [simp]:
  "limit (run rl es) = limit rl" "window (run rl es) = window rl"
  by (induction es arbitrary: rl) simp_all

lemma allow_other_key:
  "ip' \<noteq> ip \<Longrightarrow> clients (snd (allow rl now ip')) ip = clients rl ip"
  by (simp add: allow_def Let_def)

lemma allow_budgets_in_range:
  assumes "budgets_in_range rl" "0 \<le> limit rl"
  shows "budgets_in_range (snd (allow rl now ip))"
  unfolding budgets_in_range_def
proof (intro allI impI)
  fix ip' c
  assume c: "clients (snd (allow rl now ip)) ip' = Some c"
  have lim: "limit (snd (allow rl now ip)) = limit rl" by simp
  show "0 \<le> tokens c \<and> tokens c \<le> limit (snd (allow rl now ip))"
  proof (cases "ip' = ip")
    case False
    then have "clients rl ip' = Some c" using c allow_other_key [of ip ip' rl now] by simp
    then show ?thesis using assms(1) lim by (simp add: budgets_in_range_def)
  next
    case True
    show ?thesis
    proof (cases "clients rl ip")
      case None
      then show ?thesis using c True assms(2) unfolding lim
        by (auto simp add: allow_def Let_def split: if_splits)
    next
      case (Some c0)
      then have "0 \<le> tokens c0 \<and> tokens c0 \<le> limit rl"
        using assms(1) by (simp add: budgets_in_range_def)
      then show ?thesis using c True assms(2) Some unfolding lim
        by (auto simp add: allow_def Let_def split: if_splits)
    qed
  qed
qed

lemma cleanup_budgets_in_range:
  assumes "budgets_in_range rl"
  shows "budgets_in_range (cleanup_pass rl now)"
  using assms unfolding budgets_in_range_def cleanup_pass_def
  by (auto split: option.splits if_splits)

lemma step_budgets_in_range:
  "budgets_in_range rl \<Longrightarrow> 0 \<le> limit rl \<Longrightarrow> budgets_in_range (step rl e)"
  by (cases e) (simp_all add: allow_budgets_in_range cleanup_budgets_in_range)

lemma run_budgets_in_range:
  "budgets_in_range rl \<Longrightarrow> 0 \<le> limit rl \<Longrightarrow> budgets_in_range (run rl es)"
  by (induction es arbitrary: rl) (simp_all add: step_budgets_in_range)

lemma allow_remaining_nonneg: "0 \<le> fst (snd (fst (allow rl now ip)))"
  by (simp add: allow_def Let_def split: option.splits)

lemma step_reset_only_when_expired:
  assumes "clients rl ip = Some c" "clients (step rl e) ip = Some c'"
    and "tokens c < tokens c' \<or> lastReset c' \<noteq> lastReset c"
  shows "\<exists>now. e = Allow ip now \<and> now - lastReset c > window rl
           \<and> lastReset c' = now \<and> tokens c' = (if 0 < limit rl then limit rl - 1 else limit rl)"
proof (cases e)
  case (Allow ip' now)
  show ?thesis
  proof (cases "ip' = ip")
    case True
    with Allow assms show ?thesis
      by (auto simp add: allow_def Let_def split: if_splits)
  next
    case False
    with Allow assms allow_other_key [OF False, of rl now] show ?thesis by auto
  qed
next
  case (Sweep now)
  with assms show ?thesis
    by (auto simp add: cleanup_pass_def split: if_splits)
qed

lemma step_removes_only_idle:
  assumes "clients rl ip = Some c" "clients (step rl e) ip = None"
  shows "\<exists>t. e = Sweep t \<and> t - lastReset c > wrap64 (window rl * 2)"
proof (cases e)
  case (Allow ip' now)
  show ?thesis
  proof (cases "ip' = ip")
    case True
    with Allow assms show ?thesis by (simp add: allow_def Let_def split: if_splits)
  next
    case False
    with Allow assms allow_other_key [OF False, of rl now] show ?thesis by simp
  qed
next
  case (Sweep now)
  with assms show ?thesis by (simp add: cleanup_pass_def split: if_splits)
qed

text \<open>
  C8. Let the limiter be created with a limit \<open>l \<ge> 0\<close> and a window \<open>w\<close> whose double is
  a 64-bit duration (\<open>-2^62 \<le> w < 2^62\<close> nanoseconds). After every sequence of calls of
  \<open>allow\<close> and sweeps, every client record holds a budget between \<open>0\<close> and \<open>l\<close>, and
  the remaining budget that \<open>allow\<close> returns is never negative. Whenever a step raises
  the budget of a record or moves its window start, that step is an access by this client
  at an instant \<open>t\<close> with \<open>t - window_start > window\<close>, and it sets the budget to \<open>l\<close>
  (less the request it admits): a sweep, an access by another client and an access within
  the window never do. A record is removed only by a sweep at an instant \<open>t\<close> with
  \<open>t - window_start > 2 * window\<close>.
\<close>

theorem C8_budget_invariant:
  assumes "0 \<le> l" "- (2 ^ 62) \<le> w" "w < 2 ^ 62"
  shows "budgets_in_range (run (NewRateLimiter l w) evs)
    \<and> 0 \<le> fst (snd (fst (allow (run (NewRateLimiter l w) evs) now ip)))
    \<and> (clients (run (NewRateLimiter l w) evs) ip = Some c
        \<and> clients (step (run (NewRateLimiter l w) evs) e) ip = Some c'
        \<and> (tokens c < tokens c' \<or> lastReset c' \<noteq> lastReset c)
       \<longrightarrow> (\<exists>t. e = Allow ip t \<and> t - lastReset c > w \<and> lastReset c' = t
                \<and> tokens c' = (if 0 < l then l - 1 else l)))
    \<and> (clients (run (NewRateLimiter l w) evs) ip = Some c
        \<and> clients (step (run (NewRateLimiter l w) evs) e) ip = None
       \<longrightarrow> (\<exists>t. e = Sweep t \<and> t - lastReset c > w * 2))"
proof -
  have 0: "budgets_in_range (NewRateLimiter l w)"
    by (simp add: budgets_in_range_def NewRateLimiter_def)
  have cfg: "limit (NewRateLimiter l w) = l" "window (NewRateLimiter l w) = w"
    by (simp_all add: NewRateLimiter_def)
  have 1: "budgets_in_range (run (NewRateLimiter l w) evs)"
    using run_budgets_in_range [OF 0] assms(1) cfg by simp
  have 2: "0 \<le> fst (snd (fst (allow (run (NewRateLimiter l w) evs) now ip)))"
    by (rule allow_remaining_nonneg)
  have 3: "\<exists>t. e = Allow ip t \<and> t - lastReset c > w \<and> lastReset c' = t
                \<and> tokens c' = (if 0 < l then l - 1 else l)"
    if "clients (run (NewRateLimiter l w) evs) ip = Some c
        \<and> clients (step (run (NewRateLimiter l w) evs) e) ip = Some c'
        \<and> (tokens c < tokens c' \<or> lastReset c' \<noteq> lastReset c)"
    using step_reset_only_when_expired [of "run (NewRateLimiter l w) evs" ip c e c'] that
    by (simp add: cfg)
  have 4: "\<exists>t. e = Sweep t \<and> t - lastReset c > w * 2"
    if "clients (run (NewRateLimiter l w) evs) ip = Some c
        \<and> clients (step (run (NewRateLimiter l w) evs) e) ip = None"
    using step_removes_only_idle [of "run (NewRateLimiter l w) evs" ip c e] that
      wrap64_twice [OF assms(2,3)]
    by (simp add: cfg)
  from 1 2 3 4 show ?thesis by blast
qed

text \<open>
  A limit of 2 per 10: after three calls and a sweep within the window the budget is 0;
  a call at 11 restores it, and a sweep at 21 removes the record.
\<close>

theorem C8_budget_invariant_witness:
  "(0::int) \<le> 2
   \<and> clients (run (NewRateLimiter 2 10) [Allow ''a'' 0, Allow ''a'' 1, Allow ''a'' 2, Sweep 5])
        ''a'' = Some \<lparr>tokens = 0, lastReset = 0\<rparr>
   \<and> clients (step (run (NewRateLimiter 2 10)
                      [Allow ''a'' 0, Allow ''a'' 1, Allow ''a'' 2, Sweep 5]) (Allow ''a'' 11))
        ''a'' = Some \<lparr>tokens = 1, lastReset = 11\<rparr>
   \<and> clients (step (run (NewRateLimiter 2 10)
                      [Allow ''a'' 0, Allow ''a'' 1, Allow ''a'' 2, Sweep 5]) (Sweep 21))
        ''a'' = None
   \<and> budgets_in_range
        (run (NewRateLimiter 2 10) [Allow ''a'' 0, Allow ''a'' 1, Allow ''a'' 2, Sweep 5])
   \<and> (11::int) - 0 > 10 \<and> (21::int) - 0 > 10 * 2 \<and> - (2 ^ 62) \<le> (10::int)
   \<and> (10::int) < 2 ^ 62"
proof -
  let ?rl = "run (NewRateLimiter 2 10) [Allow ''a'' 0, Allow ''a'' 1, Allow ''a'' 2, Sweep 5]"
  have 0: "(0::int) \<le> 2" "- (2 ^ 62) \<le> (10::int)" "(10::int) < 2 ^ 62" by simp_all
  have 1: "clients ?rl ''a'' = Some \<lparr>tokens = 0, lastReset = 0\<rparr>"
    by (simp add: NewRateLimiter_def allow_def cleanup_pass_def wrap64_def Let_def)
  have 2: "clients (step ?rl (Allow ''a'' 11)) ''a'' = Some \<lparr>tokens = 1, lastReset = 11\<rparr>"
    by (simp add: NewRateLimiter_def allow_def cleanup_pass_def wrap64_def Let_def)
  have 3: "clients (step ?rl (Sweep 21)) ''a'' = None"
    by (simp add: NewRateLimiter_def allow_def cleanup_pass_def wrap64_def Let_def)
  from C8_budget_invariant [OF 0, of
      "[Allow ''a'' 0, Allow ''a'' 1, Allow ''a'' 2, Sweep 5]" _ "''a''"] 1 2 3
  show ?thesis by simp
qed

lemma results_for_append:
  "results_for k rl (es1 @ es2) = results_for k rl es1 @ results_for k (run rl es1) es2"
  by (induction es1 arbitrary: rl) simp_all

lemma run_append: "run rl (es1 @ es2) = run (run rl es1) es2"
  by (induction es1 arbitrary: rl) simp_all

lemma cleanup_config [simp]:
  "limit (cleanup_pass rl now) = limit rl" "window (cleanup_pass rl now) = window rl"
  by (simp_all add: cleanup_pass_def)

lemma cleanup_keeps_fresh:
  assumes "clients rl k = Some c" "\<not> now - lastReset c > wrap64 (window rl * 2)"
  shows "clients (cleanup_pass rl now) k = Some c"
  using assms by (simp add: cleanup_pass_def)

lemma results_in_window:
  assumes "clients rl k = Some c"
    and "\<forall>e\<in>set es. lastReset c \<le> event_time e \<and> event_time e - lastReset c \<le> window rl"
    and "window rl < 2 ^ 62"
  shows "results_for k rl es =
           map (\<lambda>i. if int i < tokens c
                     then (True, tokens c - 1 - int i, lastReset c + window rl)
                     else (False, 0, lastReset c + window rl)) [0..<calls_of k es]
         \<and> (\<exists>c'. clients (run rl es) k = Some c' \<and> lastReset c' = lastReset c)"
  using assms
proof (induction es arbitrary: rl c)
  case Nil
  then show ?case by (simp add: calls_of_def)
next
  case (Cons e es)
  have e: "lastReset c \<le> event_time e" "event_time e - lastReset c \<le> window rl"
    using Cons.prems(2) by simp_all
  have rest: "\<forall>e\<in>set es. lastReset c \<le> event_time e \<and> event_time e - lastReset c \<le> window rl"
    using Cons.prems(2) by simp
  have 3: "window (step rl e) < 2 ^ 62" using Cons.prems(3) by simp
  show ?case
  proof (cases e)
    case (Sweep now)
    have "0 \<le> window rl" using e by simp
    then have "wrap64 (window rl * 2) = window rl * 2"
      using Cons.prems(3) by (simp add: wrap64_twice)
    then have "\<not> now - lastReset c > wrap64 (window rl * 2)" using e Sweep by simp
    then have 1: "clients (step rl e) k = Some c"
      using Cons.prems(1) Sweep by (simp add: cleanup_keeps_fresh)
    have 2: "\<forall>x\<in>set es. lastReset c \<le> event_time x
               \<and> event_time x - lastReset c \<le> window (step rl e)"
      using rest by simp
    from Cons.IH [OF 1 2 3] Sweep show ?thesis by (simp add: calls_of_def)
  next
    case (Allow ip now)
    show ?thesis
    proof (cases "ip = k")
      case False
      have 1: "clients (step rl e) k = Some c"
        using Cons.prems(1) Allow False by (simp add: allow_other_key)
      have 2: "\<forall>x\<in>set es. lastReset c \<le> event_time x
               \<and> event_time x - lastReset c \<le> window (step rl e)"
        using rest by simp
      from Cons.IH [OF 1 2 3] Allow False show ?thesis by (simp add: calls_of_def)
    next
      case True
      have nw: "\<not> (now - lastReset c > window rl)" using e Allow by simp
      note a = allow_in_window [OF Cons.prems(1) nw]
      have upt: "[0..<Suc n] = 0 # map Suc [0..<n]" for n
        by (simp add: upt_conv_Cons map_Suc_upt del: upt_Suc)
      have calls: "calls_of k (e # es) = Suc (calls_of k es)"
        using Allow True by (simp add: calls_of_def)
      show ?thesis
      proof (cases "tokens c > 0")
        case pos: True
        let ?c' = "c\<lparr>tokens := tokens c - 1\<rparr>"
        have 1: "clients (step rl e) k = Some ?c'"
          using a pos Allow True by simp
        have 2: "\<forall>x\<in>set es. lastReset ?c' \<le> event_time x
               \<and> event_time x - lastReset ?c' \<le> window (step rl e)"
          using rest by simp
        from Cons.IH [OF 1 2 3] a pos Allow True show ?thesis
          unfolding calls upt by (auto simp add: o_def)
      next
        case zero: False
        have 1: "clients (step rl e) k = Some c"
          using a zero Allow True by simp
        have 2: "\<forall>x\<in>set es. lastReset c \<le> event_time x
               \<and> event_time x - lastReset c \<le> window (step rl e)"
          using rest by simp
        from Cons.IH [OF 1 2 3] a zero Allow True show ?thesis
          unfolding calls upt by (auto simp add: o_def)
      qed
    qed
  qed
qed

lemma no_calls_keep_window:
  assumes "\<forall>e\<in>set es. \<not> is_call k e"
    and "clients rl k = None \<or> (\<exists>c. clients rl k = Some c \<and> lastReset c = t0)"
  shows "results_for k rl es = []
         \<and> (clients (run rl es) k = None
            \<or> (\<exists>c. clients (run rl es) k = Some c \<and> lastReset c = t0))"
  using assms
proof (induction es arbitrary: rl)
  case Nil
  then show ?case by simp
next
  case (Cons e es)
  have st: "clients (step rl e) k = None
            \<or> (\<exists>c. clients (step rl e) k = Some c \<and> lastReset c = t0)"
  proof (cases e)
    case (Allow ip now)
    then have "ip \<noteq> k" using Cons.prems(1) by simp
    then show ?thesis using Cons.prems(2) Allow by (simp add: allow_other_key)
  next
    case (Sweep now)
    show ?thesis
    proof (cases "clients rl k")
      case None
      then show ?thesis using Sweep by (simp add: cleanup_pass_def)
    next
      case (Some c)
      then have "lastReset c = t0" using Cons.prems(2) by simp
      then show ?thesis using Sweep Some by (simp add: cleanup_pass_def)
    qed
  qed
  have "\<forall>e\<in>set es. \<not> is_call k e" using Cons.prems(1) by simp
  from Cons.IH [OF this st] Cons.prems(1) show ?case
    by (cases e) auto
qed

lemma allow_after_window:
  assumes "clients rl k = None \<or> (\<exists>c. clients rl k = Some c \<and> lastReset c = t0)"
    and "t' - t0 > window rl" "0 < limit rl"
  shows "fst (allow rl t' k) = (True, limit rl - 1, t' + window rl)"
  using assms by (auto simp add: allow_def Let_def)

text \<open>
  C2. Let a window of key \<open>k\<close> start with a call at \<open>t0\<close>, let the limit be \<open>N > 0\<close>,
  and let the window be below \<open>2^62\<close> nanoseconds (so that the sweep's \<open>window*2\<close> is a
  64-bit duration). Whatever other clients call and whenever the sweep runs within the
  window (no later than \<open>t0 + window\<close>), the calls of \<open>k\<close> within the window are admitted
  while fewer than \<open>N\<close> went before, with remaining budgets \<open>N - 1\<close> down to \<open>0\<close>, and
  rejected from then on, with reset time \<open>t0 + window\<close>: so with \<open>N + 1\<close> calls the first
  \<open>N\<close> are admitted and the last is rejected. After any further calls of other clients and
  sweeps, the first call of \<open>k\<close> made more than \<open>window\<close> after \<open>t0\<close> is admitted with
  remaining budget \<open>N - 1\<close>.
\<close>

theorem C2_budget_per_window:
  assumes start: "window_starts rl k t0"
    and within: "\<forall>e\<in>set es. t0 \<le> event_time e \<and> event_time e - t0 \<le> window rl"
    and later: "\<forall>e\<in>set es'. \<not> is_call k e"
    and after: "t' - t0 > window rl"
    and N: "limit rl = N" "0 < N"
    and bound: "window rl < 2 ^ 62"
  shows "results_for k rl (Allow k t0 # es)
           = map (\<lambda>i. if int i < N then (True, N - 1 - int i, t0 + window rl)
                       else (False, 0, t0 + window rl)) [0..<Suc (calls_of k es)]
    \<and> (calls_of k es = nat N \<longrightarrow>
         results_for k rl (Allow k t0 # es)
           = map (\<lambda>i. (True, N - 1 - int i, t0 + window rl)) [0..<nat N]
             @ [(False, 0, t0 + window rl)])
    \<and> results_for k rl (Allow k t0 # es @ es' @ [Allow k t'])
         = results_for k rl (Allow k t0 # es) @ [(True, N - 1, t' + window rl)]"
proof -
  let ?W = "window rl"
  let ?rl1 = "step rl (Allow k t0)"
  have first: "fst (allow rl t0 k) = (True, N - 1, t0 + ?W)"
    and "\<exists>c1. clients ?rl1 k = Some c1 \<and> lastReset c1 = t0 \<and> tokens c1 = N - 1"
    using start N by (auto simp add: window_starts_def allow_def Let_def split: option.splits)
  then obtain c1 where c1: "clients ?rl1 k = Some c1" "lastReset c1 = t0" "tokens c1 = N - 1"
    by blast
  have w1: "\<forall>e\<in>set es. lastReset c1 \<le> event_time e
              \<and> event_time e - lastReset c1 \<le> window ?rl1"
    using within c1 by simp
  have b1: "window ?rl1 < 2 ^ 62" using bound by simp
  note inw = results_in_window [OF c1(1) w1 b1]
  have upt: "[0..<Suc n] = 0 # map Suc [0..<n]" for n
    by (simp add: upt_conv_Cons map_Suc_upt del: upt_Suc)
  have res: "results_for k rl (Allow k t0 # es)
           = map (\<lambda>i. if int i < N then (True, N - 1 - int i, t0 + ?W)
                       else (False, 0, t0 + ?W)) [0..<Suc (calls_of k es)]"
    using inw first c1 N unfolding upt by (auto simp add: o_def)
  have exact: "results_for k rl (Allow k t0 # es)
           = map (\<lambda>i. (True, N - 1 - int i, t0 + ?W)) [0..<nat N] @ [(False, 0, t0 + ?W)]"
    if "calls_of k es = nat N"
  proof -
    have 1: "[0..<Suc (nat N)] = [0..<nat N] @ [nat N]" by simp
    have 2: "map (\<lambda>i. if int i < N then (True, N - 1 - int i, t0 + ?W)
                       else (False, 0, t0 + ?W)) [0..<nat N]
           = map (\<lambda>i. (True, N - 1 - int i, t0 + ?W)) [0..<nat N]"
      by (rule map_cong) auto
    show ?thesis unfolding res that 1 using N 2 by simp
  qed
  from inw obtain c2 where c2: "clients (run ?rl1 es) k = Some c2" "lastReset c2 = t0"
    using c1 by auto
  then have k2: "clients (run ?rl1 es) k = None
      \<or> (\<exists>c. clients (run ?rl1 es) k = Some c \<and> lastReset c = t0)" by simp
  note nc = no_calls_keep_window [OF later k2]
  have lastc: "fst (allow (run (run ?rl1 es) es') t' k) = (True, N - 1, t' + ?W)"
    using allow_after_window [of "run (run ?rl1 es) es'" k t0 t'] nc after N by simp
  have "results_for k rl (Allow k t0 # es @ es' @ [Allow k t'])
      = results_for k rl (Allow k t0 # es)
        @ results_for k (run ?rl1 es) es'
        @ results_for k (run (run ?rl1 es) es') [Allow k t']"
    by (simp add: results_for_append run_append)
  then have fin: "results_for k rl (Allow k t0 # es @ es' @ [Allow k t'])
         = results_for k rl (Allow k t0 # es) @ [(True, N - 1, t' + ?W)]"
    using nc lastc by simp
  from res exact fin show ?thesis by blast
qed

text \<open>
  A limit of 3 per 60: four calls of one client up to the end of the window, between them
  a call of another client and a sweep; then a sweep that removes the record, and a call
  after the window.
\<close>

theorem C2_budget_per_window_witness:
  "results_for ''10.0.0.1'' (NewRateLimiter 3 60)
      [Allow ''10.0.0.1'' 0, Allow ''10.0.0.1'' 1, Allow ''10.0.0.2'' 1, Allow ''10.0.0.1'' 2,
       Sweep 60, Allow ''10.0.0.1'' 60]
     = [(True, 2, 60), (True, 1, 60), (True, 0, 60), (False, 0, 60)]
   \<and> results_for ''10.0.0.1'' (NewRateLimiter 3 60)
      ([Allow ''10.0.0.1'' 0, Allow ''10.0.0.1'' 1, Allow ''10.0.0.2'' 1, Allow ''10.0.0.1'' 2,
        Sweep 60, Allow ''10.0.0.1'' 60] @ [Sweep 200] @ [Allow ''10.0.0.1'' 201])
     = [(True, 2, 60), (True, 1, 60), (True, 0, 60), (False, 0, 60), (True, 2, 261)]"
proof -
  let ?rl = "NewRateLimiter 3 60"
  let ?es = "[Allow ''10.0.0.1'' 1, Allow ''10.0.0.2'' 1, Allow ''10.0.0.1'' 2,
       Sweep 60, Allow ''10.0.0.1'' 60]"
  have 1: "window_starts ?rl ''10.0.0.1'' 0"
    by (simp add: window_starts_def NewRateLimiter_def)
  have 2: "\<forall>e\<in>set ?es. 0 \<le> event_time e \<and> event_time e - 0 \<le> window ?rl"
    by (simp add: NewRateLimiter_def)
  have 3: "\<forall>e\<in>set [Sweep 200]. \<not> is_call ''10.0.0.1'' e" by simp
  have 4: "(201::int) - 0 > window ?rl" by (simp add: NewRateLimiter_def)
  have 5: "limit ?rl = 3" "(0::int) < 3" by (simp_all add: NewRateLimiter_def)
  have 6: "calls_of ''10.0.0.1'' ?es = nat 3" by (simp add: calls_of_def)
  have 7: "[0..<nat 3] = [0, 1, 2]" by (simp add: upt_rec)
  have 8: "window ?rl < 2 ^ 62" by (simp add: NewRateLimiter_def)
  from C2_budget_per_window [OF 1 2 3 4 5 8] 6 show ?thesis
    unfolding 7 by (simp add: NewRateLimiter_def)
qed

section \<open>Token engine: theorems\<close>

lemma NewNumericDate_le: "NewNumericDate t \<le> t"
  by (simp add: NewNumericDate_def Second_def)

lemma NewNumericDate_mono: "a \<le> b \<Longrightarrow> NewNumericDate a \<le> NewNumericDate b"
proof -
  assume "a \<le> b"
  then have "a div Second \<le> b div Second" by (simp add: Second_def zdiv_mono1)
  moreover have "NewNumericDate x = (x div Second) * Second" for x
    unfolding NewNumericDate_def by (simp add: minus_mod_eq_div_mult)
  ultimately show ?thesis by (simp add: Second_def)
qed

lemma expired_message:
  "Contains (jwt_Error (jwt_ErrTokenInvalidClaims [jwt_ErrTokenExpired])) ''token is expired''"
  by simp

lemma signature_message:
  "\<not> Contains (jwt_Error jwt_ErrTokenSignatureInvalid) ''token has expired''"
  "\<not> Contains (jwt_Error jwt_ErrTokenSignatureInvalid) ''token is expired''"
  by simp_all

lemma NewNumericDate_gt: "t - Second < NewNumericDate t"
proof -
  have "t mod Second < Second" by (simp add: Second_def)
  then show ?thesis by (simp add: NewNumericDate_def)
qed

lemma json_string_access: "json_string ''access'' = ''access''"
  by (simp add: json_string_def)

text \<open>
  A byte that is not UTF-8 does not pass through JSON: a subject of the single byte FF
  comes back as U+FFFD.
\<close>

lemma json_string_invalid_byte:
  "json_string [CHR 0xFF] = [CHR 0xEF, CHR 0xBF, CHR 0xBD] \<and> \<not> valid_utf8 [CHR 0xFF]"
  by (simp add: json_string_def valid_utf8_def)

lemma key_block_hmac:
  "key_block cd a key' = key_block cd a key \<Longrightarrow> hmac cd a key' msg = hmac cd a key msg"
  by (simp add: hmac_def)

text \<open>
  A key shorter than the block and the same key followed by zero bytes, up to the length
  of the block, give the same block, and so the same signatures.
\<close>

lemma key_block_zero_bytes:
  assumes "length key + n \<le> BlockSize a"
  shows "key_block cd a (key @ replicate n (CHR 0x00)) = key_block cd a key"
proof -
  have "take (BlockSize a - length key) (replicate (n + BlockSize a) (CHR 0x00))
      = take (BlockSize a - length key) (replicate (BlockSize a) (CHR 0x00))"
    by (auto simp add: min_def)
  then show ?thesis
    using assms by (simp add: key_block_def replicate_add)
qed

text \<open>
  C1, amended. For a non-empty subject, email and secret and a positive lifetime,
  \<open>generateToken\<close> at instant \<open>now\<close> returns a token, and \<open>ValidateToken\<close> of it
  \<^item> with the same secret at an instant \<open>t\<close> from \<open>now\<close> on and at least one second
    before \<open>now + ttl\<close> succeeds and returns subject, email and class as JSON carries
    them, which are the same strings when these are well-formed UTF-8;
  \<^item> with the same secret at or after \<open>now + ttl\<close> fails with the expired-token error;
  \<^item> with a non-empty secret under which the signature of the token's text differs fails
    with the invalid-token error, at every instant;
  \<^item> with a non-empty secret that has the same HMAC key block (the secret followed by
    zero bytes, for one) gives the result of the secret itself.
  Nothing is said of the last second before \<open>now + ttl\<close>, where the whole seconds of
  the claims decide (see C7).
\<close>

theorem C1_issue_then_validate:
  assumes "userID \<noteq> []" "email \<noteq> []" "secret \<noteq> []" "0 < ttl"
  shows "\<exists>tok. generateToken cd userID email cls ttl secret now = Inr tok
    \<and> (now \<le> t \<and> t + Second \<le> now + ttl \<longrightarrow>
         ValidateToken cd tok secret t
           = Inr \<lparr>TokenClaims.UserID = json_string userID,
                  TokenClaims.Email = json_string email,
                  TokenClaims.TokenType = json_string cls\<rparr>)
    \<and> (now \<le> t \<and> t + Second \<le> now + ttl
        \<and> valid_utf8 userID \<and> valid_utf8 email \<and> valid_utf8 cls \<longrightarrow>
         ValidateToken cd tok secret t
           = Inr \<lparr>TokenClaims.UserID = userID, TokenClaims.Email = email,
                  TokenClaims.TokenType = cls\<rparr>)
    \<and> (now + ttl \<le> t \<longrightarrow>
         ValidateToken cd tok secret t = Inl (Errorf ''token has expired''))
    \<and> (secret' \<noteq> []
        \<and> hmac cd HS256 secret' (signing_text tok) \<noteq> hmac cd HS256 secret (signing_text tok)
        \<longrightarrow>
         ValidateToken cd tok secret' t
           = Inl (Errorf ''invalid token: token signature is invalid: signature is invalid''))
    \<and> (secret' \<noteq> [] \<and> key_block cd HS256 secret' = key_block cd HS256 secret \<longrightarrow>
         ValidateToken cd tok secret' t = ValidateToken cd tok secret t)"
proof -
  let ?claims = "\<lparr>ExpiresAt = Some (NewNumericDate (now + ttl)),
                      IssuedAt = Some (NewNumericDate now),
                      NotBefore = Some (NewNumericDate now),
                      customClaims.UserID = json_string userID,
                      customClaims.Email = json_string email,
                      customClaims.TokenType = json_string cls\<rparr>"
  let ?text = "SigningString cd HS256 ?claims"
  let ?tok = "Compact (JWS ?text HS256 ?claims (hmac cd HS256 secret ?text))"
  have gen: "generateToken cd userID email cls ttl secret now = Inr ?tok"
    using assms by (simp add: generateToken_def Let_def)
  have nbf_exp: "NewNumericDate now \<le> NewNumericDate (now + ttl)"
    using assms(4) by (intro NewNumericDate_mono) simp
  have ok: "ValidateToken cd ?tok secret t
           = Inr \<lparr>TokenClaims.UserID = json_string userID,
                  TokenClaims.Email = json_string email,
                  TokenClaims.TokenType = json_string cls\<rparr>"
    if "now \<le> t \<and> t + Second \<le> now + ttl"
  proof -
    have "\<not> t < NewNumericDate now" using that NewNumericDate_le [of now] by simp
    moreover have "t < NewNumericDate (now + ttl)"
      using that NewNumericDate_gt [of "now + ttl"] by simp
    ultimately have "Validate t ?claims = []" by (simp add: Validate_def)
    then show ?thesis using assms(3) by (simp add: ValidateToken_def)
  qed
  have ok': "ValidateToken cd ?tok secret t
           = Inr \<lparr>TokenClaims.UserID = userID, TokenClaims.Email = email,
                  TokenClaims.TokenType = cls\<rparr>"
    if "now \<le> t \<and> t + Second \<le> now + ttl
        \<and> valid_utf8 userID \<and> valid_utf8 email \<and> valid_utf8 cls"
    using ok that by (simp add: valid_utf8_def)
  have expd: "ValidateToken cd ?tok secret t = Inl (Errorf ''token has expired'')"
    if "now + ttl \<le> t"
  proof -
    have e: "NewNumericDate (now + ttl) \<le> t"
      using that NewNumericDate_le [of "now + ttl"] by simp
    then have "\<not> t < NewNumericDate now" using nbf_exp by simp
    then have "Validate t ?claims = [jwt_ErrTokenExpired]" using e by (simp add: Validate_def)
    then show ?thesis using assms(3) expired_message by (simp add: ValidateToken_def)
  qed
  have other: "ValidateToken cd ?tok secret' t
           = Inl (Errorf ''invalid token: token signature is invalid: signature is invalid'')"
    if "secret' \<noteq> []
        \<and> hmac cd HS256 secret' (signing_text ?tok) \<noteq> hmac cd HS256 secret (signing_text ?tok)"
    using that signature_message by (auto simp add: ValidateToken_def)
  have same: "ValidateToken cd ?tok secret' t = ValidateToken cd ?tok secret t"
    if "secret' \<noteq> [] \<and> key_block cd HS256 secret' = key_block cd HS256 secret"
  proof -
    from that have "hmac cd HS256 secret' ?text = hmac cd HS256 secret ?text"
      by (intro key_block_hmac) simp
    then show ?thesis using that assms(3) by (simp add: ValidateToken_def)
  qed
  show ?thesis
    by (intro exI [of _ ?tok] conjI impI;
        (rule gen | erule ok | erule ok' | erule expd | erule other | erule same))
qed

text \<open>
  A token of 15 minutes issued at 10.7 s: valid at 11.5 s, expired at 910.7 s, invalid
  under another secret, and under the secret followed by a zero byte as under the secret.
  The hash is the stand-in of the fixtures.
\<close>

theorem C1_issue_then_validate_witness:
  "generateToken test_codec ''user-1'' ''a@b.com'' ''access'' (15 * Minute) ''secret''
       10700000000
     = Inr (projr (generateToken test_codec ''user-1'' ''a@b.com'' ''access'' (15 * Minute)
         ''secret'' 10700000000))
   \<and> (10700000000::int) \<le> 11500000000
   \<and> (11500000000::int) + Second \<le> 10700000000 + 15 * Minute
   \<and> ValidateToken test_codec
        (projr (generateToken test_codec ''user-1'' ''a@b.com'' ''access'' (15 * Minute)
           ''secret'' 10700000000))
        ''secret'' 11500000000
       = Inr \<lparr>TokenClaims.UserID = ''user-1'', TokenClaims.Email = ''a@b.com'',
              TokenClaims.TokenType = ''access''\<rparr>
   \<and> ValidateToken test_codec
        (projr (generateToken test_codec ''user-1'' ''a@b.com'' ''access'' (15 * Minute)
           ''secret'' 10700000000))
        ''secret'' 910700000000
       = Inl (Errorf ''token has expired'')
   \<and> ValidateToken test_codec
        (projr (generateToken test_codec ''user-1'' ''a@b.com'' ''access'' (15 * Minute)
           ''secret'' 10700000000))
        ''other'' 11500000000
       = Inl (Errorf ''invalid token: token signature is invalid: signature is invalid'')
   \<and> key_block test_codec HS256 (''secret'' @ [CHR 0x00]) = key_block test_codec HS256 ''secret''
   \<and> ValidateToken test_codec
        (projr (generateToken test_codec ''user-1'' ''a@b.com'' ''access'' (15 * Minute)
           ''secret'' 10700000000))
        (''secret'' @ [CHR 0x00]) 11500000000
       = Inr \<lparr>TokenClaims.UserID = ''user-1'', TokenClaims.Email = ''a@b.com'',
              TokenClaims.TokenType = ''access''\<rparr>"
proof -
  let ?gen = "generateToken test_codec ''user-1'' ''a@b.com'' ''access'' (15 * Minute)
         ''secret'' 10700000000"
  have h: "''user-1'' \<noteq> []" "''a@b.com'' \<noteq> []" "''secret'' \<noteq> []" "0 < 15 * Minute"
    by (simp_all add: Minute_def Second_def)
  have t1: "(10700000000::int) \<le> 11500000000
      \<and> (11500000000::int) + Second \<le> 10700000000 + 15 * Minute"
    by (simp add: Minute_def Second_def)
  have u: "valid_utf8 ''user-1'' \<and> valid_utf8 ''a@b.com'' \<and> valid_utf8 ''access''"
    by (simp add: valid_utf8_def json_string_def)
  have t2: "10700000000 + 15 * Minute \<le> 910700000000"
    by (simp add: Minute_def Second_def)
  have s: "''other'' \<noteq> []
      \<and> hmac test_codec HS256 ''other'' (signing_text (projr ?gen))
        \<noteq> hmac test_codec HS256 ''secret'' (signing_text (projr ?gen))"
    by code_simp
  have k: "''secret'' @ [CHR 0x00] \<noteq> []
      \<and> key_block test_codec HS256 (''secret'' @ [CHR 0x00])
        = key_block test_codec HS256 ''secret''"
    by code_simp
  from C1_issue_then_validate [OF h, of test_codec "''access''" 10700000000 11500000000
      "''other''"]
  obtain tok where tok: "?gen = Inr tok"
    and 1: "ValidateToken test_codec tok ''secret'' 11500000000
           = Inr \<lparr>TokenClaims.UserID = ''user-1'', TokenClaims.Email = ''a@b.com'',
                  TokenClaims.TokenType = ''access''\<rparr>"
    and 2: "hmac test_codec HS256 ''other'' (signing_text tok)
        \<noteq> hmac test_codec HS256 ''secret'' (signing_text tok) \<longrightarrow>
         ValidateToken test_codec tok ''other'' 11500000000
           = Inl (Errorf ''invalid token: token signature is invalid: signature is invalid'')"
    using t1 u by auto
  from tok have p: "projr ?gen = tok" by simp
  from C1_issue_then_validate [OF h, of test_codec "''access''" 10700000000 910700000000
      "''other''"] tok t2
  have 3: "ValidateToken test_codec tok ''secret'' 910700000000
       = Inl (Errorf ''token has expired'')" by auto
  from C1_issue_then_validate [OF h, of test_codec "''access''" 10700000000 11500000000
      "''secret'' @ [CHR 0x00]"] tok k
  have 4: "ValidateToken test_codec tok (''secret'' @ [CHR 0x00]) 11500000000
       = ValidateToken test_codec tok ''secret'' 11500000000" by auto
  from s p 2 have 5: "ValidateToken test_codec tok ''other'' 11500000000
           = Inl (Errorf ''invalid token: token signature is invalid: signature is invalid'')"
    by simp
  from tok p 1 3 4 5 t1 k show ?thesis by simp
qed

text \<open>
  C1, as stated, fails: another secret can validate the token. HMAC fills a key shorter
  than the block of the hash with zero bytes, so a token signed with \<open>secret\<close> is
  accepted under the different secret \<open>secret\<close> followed by a zero byte, whatever the hash
  function and the serialisation are.
\<close>

theorem C1_zero_padded_secret_counterexample:
  "\<forall>cd. ''secret'' @ [CHR 0x00] \<noteq> ''secret''
   \<and> generateToken cd ''user-1'' ''a@b.com'' ''access'' (15 * Minute) ''secret'' 10700000000
     = Inr (projr (generateToken cd ''user-1'' ''a@b.com'' ''access'' (15 * Minute) ''secret''
         10700000000))
   \<and> ValidateToken cd
        (projr (generateToken cd ''user-1'' ''a@b.com'' ''access'' (15 * Minute) ''secret''
           10700000000))
        (''secret'' @ [CHR 0x00]) 11500000000
       = Inr \<lparr>TokenClaims.UserID = ''user-1'', TokenClaims.Email = ''a@b.com'',
              TokenClaims.TokenType = ''access''\<rparr>"
proof
  fix cd
  have k: "key_block cd HS256 (''secret'' @ [CHR 0x00]) = key_block cd HS256 ''secret''"
    using key_block_zero_bytes [of "''secret''" 1 HS256 cd] by simp
  have j: "json_string ''user-1'' = ''user-1''" "json_string ''a@b.com'' = ''a@b.com''"
    by (simp_all add: json_string_def)
  show "''secret'' @ [CHR 0x00] \<noteq> ''secret''
   \<and> generateToken cd ''user-1'' ''a@b.com'' ''access'' (15 * Minute) ''secret'' 10700000000
     = Inr (projr (generateToken cd ''user-1'' ''a@b.com'' ''access'' (15 * Minute) ''secret''
         10700000000))
   \<and> ValidateToken cd
        (projr (generateToken cd ''user-1'' ''a@b.com'' ''access'' (15 * Minute) ''secret''
           10700000000))
        (''secret'' @ [CHR 0x00]) 11500000000
       = Inr \<lparr>TokenClaims.UserID = ''user-1'', TokenClaims.Email = ''a@b.com'',
              TokenClaims.TokenType = ''access''\<rparr>"
    using key_block_hmac [OF k] j json_string_access
    by (simp add: generateToken_def ValidateToken_def Validate_def NewNumericDate_def
        Minute_def Second_def Let_def)
qed

lemma NewNumericDate_div: "NewNumericDate t = (t div Second) * Second"
  unfolding NewNumericDate_def by (simp add: minus_mod_eq_div_mult)

lemma generateToken_same_second:
  assumes "now1 div Second = now2 div Second" "ttl mod Second = 0"
  shows "generateToken cd userID email cls ttl secret now1
       = generateToken cd userID email cls ttl secret now2"
proof -
  from assms(2) have "Second dvd ttl" by (simp add: mod_eq_0_iff_dvd)
  then obtain k where k: "ttl = k * Second" by (auto simp add: dvd_def mult.commute)
  have "(now1 + ttl) div Second = (now2 + ttl) div Second"
    using assms(1) unfolding k by (simp add: Second_def)
  then show ?thesis
    using assms(1) by (simp add: generateToken_def NewNumericDate_div)
qed

text \<open>
  C7 fails on the code. Two tokens issued for the same subject at the different instants
  10.0 s and 10.5 s are equal: the dates of the claims hold whole seconds, so the claims,
  and with them the signature, are the same, whatever the hash function and the
  serialisation are.
\<close>

theorem C7_same_second_same_token:
  "(10000000000::int) \<noteq> 10500000000
   \<and> (\<forall>cd. generateToken cd ''user-1'' ''a@b.com'' ''access'' (15 * Minute) ''secret''
            10000000000
          = generateToken cd ''user-1'' ''a@b.com'' ''access'' (15 * Minute) ''secret''
            10500000000)
   \<and> (\<forall>cd. GenerateAccessToken cd ''user-1'' ''a@b.com'' (15 * Minute) ''secret'' 10000000000
          = GenerateAccessToken cd ''user-1'' ''a@b.com'' (15 * Minute) ''secret''
              10500000000)"
  by (simp add: GenerateAccessToken_def generateToken_def NewNumericDate_def Minute_def
      Second_def Let_def)
section \<open>Credential service: theorems\<close>

lemma Login_reject_empty:
  "email = [] \<or> password = [] \<Longrightarrow>
   Login lib s now email password =
     (if email = [] then Inl (NewBadRequest ''email is required'')
      else Inl (NewBadRequest ''password is required''))"
  by (auto simp add: Login_def)

lemma Login_lookup_failed:
  assumes "email \<noteq> []" "password \<noteq> []"
    and "snd (GetByEmail (userRepo s) (ToLower (TrimSpace email))) = Some e"
  shows "Login lib s now email password = Inl (NewUnauthorized ''invalid email or password'')"
proof -
  obtain u where "GetByEmail (userRepo s) (ToLower (TrimSpace email)) = (u, Some e)"
    using assms(3) by (cases "GetByEmail (userRepo s) (ToLower (TrimSpace email))") auto
  then show ?thesis using assms(1,2) by (simp add: Login_def split: option.split)
qed

lemma Login_wrong_password:
  assumes "email \<noteq> []" "password \<noteq> []"
    and "GetByEmail (userRepo s) (ToLower (TrimSpace email)) = (Some user, None)"
    and "IsActive user"
    and "CompareHashAndPassword lib (PasswordHash user) password = Some e"
  shows "Login lib s now email password = Inl (NewUnauthorized ''invalid email or password'')"
  using assms by (simp add: Login_def ComparePasswords_def)

lemma Login_inactive:
  assumes "email \<noteq> []" "password \<noteq> []"
    and "GetByEmail (userRepo s) (ToLower (TrimSpace email)) = (Some user, None)"
    and "\<not> IsActive user"
  shows "Login lib s now email password = Inl (NewForbidden ''account is inactive'')"
  using assms by (simp add: Login_def)

text \<open>
  C5, as stated, fails for an empty password (and likewise for an empty email): with no
  record for the email, and with an active record whose hash does not verify, \<open>Login\<close>
  fails with the error of a missing password, not with the error of invalid credentials.
\<close>

theorem C5_empty_password_counterexample:
  "snd (GetByEmail (userRepo (test_service mock_repo_empty))
          (ToLower (TrimSpace ''john.doe@example.com'')))
     = Some (NewNotFound ''user not found'')
   \<and> GetByEmail (userRepo (test_service (mock_repo_with (mock_user True))))
          (ToLower (TrimSpace ''john.doe@example.com''))
     = (Some (mock_user True), None)
   \<and> IsActive (mock_user True)
   \<and> CompareHashAndPassword test_library (PasswordHash (mock_user True)) [] \<noteq> None
   \<and> Login test_library (test_service mock_repo_empty) 0 ''john.doe@example.com'' []
     = Inl (NewBadRequest ''password is required'')
   \<and> Login test_library (test_service (mock_repo_with (mock_user True))) 0
        ''john.doe@example.com'' []
     = Inl (NewBadRequest ''password is required'')
   \<and> NewBadRequest ''password is required'' \<noteq> NewUnauthorized ''invalid email or password''"
  by (simp add: Login_def test_service_def NewAuthService_def mock_repo_empty_def
      mock_repo_with_def mock_user_def test_library_def NewBadRequest_def NewUnauthorized_def
      ToLower_def TrimSpace_def lower_char_def is_upper_def is_space_def)

text \<open>
  C5, amended. Let the lookup of the email fail in one run, and return an active user
  whose stored hash does not verify against the password in the other. Then \<open>Login\<close>
  fails in both runs and returns the same error in both, for every email and password and
  whatever the clock reads; for an empty email or an empty password that error is the
  invalid-input error of the missing field, returned before any lookup. Of which kind the
  common error is for a non-empty email and password is not stated.
\<close>

theorem C5_login_failures_indistinguishable:
  assumes "snd (GetByEmail (userRepo s1) (ToLower (TrimSpace email))) = Some e"
    and "GetByEmail (userRepo s2) (ToLower (TrimSpace email)) = (Some user, None)"
    and "IsActive user"
    and "CompareHashAndPassword lib (PasswordHash user) password = Some e'"
  shows "Login lib s1 now email password = Login lib s2 now' email password
    \<and> isl (Login lib s1 now email password)
    \<and> isl (Login lib s2 now' email password)
    \<and> (email = [] \<longrightarrow>
         Login lib s1 now email password = Inl (NewBadRequest ''email is required'')
         \<and> Err (NewBadRequest ''email is required'') = ErrInvalidInput)
    \<and> (email \<noteq> [] \<and> password = [] \<longrightarrow>
         Login lib s1 now email password = Inl (NewBadRequest ''password is required'')
         \<and> Err (NewBadRequest ''password is required'') = ErrInvalidInput)"
proof (cases "email = [] \<or> password = []")
  case True
  then show ?thesis
    using Login_reject_empty [OF True, of lib s1 now] Login_reject_empty [OF True, of lib s2 now']
    by (auto simp add: NewBadRequest_def)
next
  case False
  then have ne: "email \<noteq> []" "password \<noteq> []" by simp_all
  show ?thesis
    using Login_lookup_failed [OF ne assms(1), of lib now]
      Login_wrong_password [OF ne assms(2,3,4), of now'] ne
    by simp
qed

text \<open>
  The two runs on the mock repositories, with a wrong password and with no password.
\<close>

theorem C5_login_failures_indistinguishable_witness:
  "Login test_library (test_service mock_repo_empty) 0 ''john.doe@example.com'' ''WrongPassword123!''
     = Login test_library (test_service (mock_repo_with (mock_user True))) 5
         ''john.doe@example.com'' ''WrongPassword123!''
   \<and> isl (Login test_library (test_service mock_repo_empty) 0 ''john.doe@example.com''
         ''WrongPassword123!'')
   \<and> Login test_library (test_service mock_repo_empty) 0 ''john.doe@example.com'' []
     = Login test_library (test_service (mock_repo_with (mock_user True))) 5
         ''john.doe@example.com'' []
   \<and> Login test_library (test_service mock_repo_empty) 0 ''john.doe@example.com'' []
     = Inl (NewBadRequest ''password is required'')
   \<and> IsActive (mock_user True)"
proof -
  have 1: "snd (GetByEmail (userRepo (test_service mock_repo_empty))
          (ToLower (TrimSpace ''john.doe@example.com'')))
     = Some (NewNotFound ''user not found'')"
    by (simp add: test_service_def NewAuthService_def mock_repo_empty_def)
  have 2: "GetByEmail (userRepo (test_service (mock_repo_with (mock_user True))))
          (ToLower (TrimSpace ''john.doe@example.com''))
     = (Some (mock_user True), None)"
    by (simp add: test_service_def NewAuthService_def mock_repo_with_def mock_user_def
        ToLower_def TrimSpace_def lower_char_def is_upper_def is_space_def)
  have 3: "IsActive (mock_user True)" by (simp add: mock_user_def)
  have 4: "CompareHashAndPassword test_library (PasswordHash (mock_user True))
             ''WrongPassword123!''
           = Some (Errorf ''crypto/bcrypt: hashedPassword is not the hash of the given password'')"
    by (simp add: test_library_def)
  have 5: "CompareHashAndPassword test_library (PasswordHash (mock_user True)) []
           = Some (Errorf ''crypto/bcrypt: hashedPassword is not the hash of the given password'')"
    by (simp add: test_library_def)
  have 6: "''john.doe@example.com'' \<noteq> []" by simp
  note a = C5_login_failures_indistinguishable [OF 1 2 3 4, of 0 5]
  note b = C5_login_failures_indistinguishable [OF 1 2 3 5, of 0 5]
  from a have a1: "Login test_library (test_service mock_repo_empty) 0 ''john.doe@example.com''
         ''WrongPassword123!''
     = Login test_library (test_service (mock_repo_with (mock_user True))) 5
         ''john.doe@example.com'' ''WrongPassword123!''" by blast
  from a have a2: "isl (Login test_library (test_service mock_repo_empty) 0
         ''john.doe@example.com'' ''WrongPassword123!'')" by blast
  from b have b1: "Login test_library (test_service mock_repo_empty) 0 ''john.doe@example.com'' []
     = Login test_library (test_service (mock_repo_with (mock_user True))) 5
         ''john.doe@example.com'' []" by blast
  from b 6 have b2: "Login test_library (test_service mock_repo_empty) 0
         ''john.doe@example.com'' []
     = Inl (NewBadRequest ''password is required'')" by blast
  from a1 a2 b1 b2 3 show ?thesis by (intro conjI)
qed

text \<open>
  C10. For a supplied (non-empty) email and password, when the lookup returns a user whose
  active flag is false, \<open>Login\<close> returns the inactive-account error whatever the
  comparison of the password would give (the theorem holds for every library, so for
  matching and for non-matching passwords), and this error is not the error returned for an
  unknown email.
\<close>

theorem C10_inactive_before_password:
  assumes "email \<noteq> []" "password \<noteq> []"
    and "GetByEmail (userRepo s) (ToLower (TrimSpace email)) = (Some user, None)"
    and "\<not> IsActive user"
  shows "Login lib s now email password = Inl (NewForbidden ''account is inactive'')
    \<and> Login lib s now email password \<noteq> Inl (NewUnauthorized ''invalid email or password'')
    \<and> Err (NewForbidden ''account is inactive'') = ErrUserInactive"
  using Login_inactive [OF assms, of lib now]
  by (simp add: NewForbidden_def NewUnauthorized_def)

text \<open>
  The inactive user of the mock repository, with the matching and with a wrong password.
\<close>

theorem C10_inactive_before_password_witness:
  "Login test_library (test_service (mock_repo_with (mock_user False))) 0
       ''john.doe@example.com'' ''SecurePass123!''
     = Inl (NewForbidden ''account is inactive'')
   \<and> Login test_library (test_service (mock_repo_with (mock_user False))) 0
       ''john.doe@example.com'' ''WrongPassword123!''
     = Inl (NewForbidden ''account is inactive'')
   \<and> CompareHashAndPassword test_library (PasswordHash (mock_user False)) ''SecurePass123!''
     = None
   \<and> CompareHashAndPassword test_library (PasswordHash (mock_user False)) ''WrongPassword123!''
     \<noteq> None
   \<and> \<not> IsActive (mock_user False)"
proof -
  have 1: "''john.doe@example.com'' \<noteq> []" "''SecurePass123!'' \<noteq> []"
    "''WrongPassword123!'' \<noteq> []" by simp_all
  have 2: "GetByEmail (userRepo (test_service (mock_repo_with (mock_user False))))
          (ToLower (TrimSpace ''john.doe@example.com''))
     = (Some (mock_user False), None)"
    by (simp add: test_service_def NewAuthService_def mock_repo_with_def mock_user_def
        ToLower_def TrimSpace_def lower_char_def is_upper_def is_space_def)
  have 3: "\<not> IsActive (mock_user False)" by (simp add: mock_user_def)
  have 4: "CompareHashAndPassword test_library (PasswordHash (mock_user False))
             ''SecurePass123!'' = None
     \<and> CompareHashAndPassword test_library (PasswordHash (mock_user False))
             ''WrongPassword123!'' \<noteq> None"
    by (simp add: test_library_def mock_user_def)
  from C10_inactive_before_password [OF 1(1) 1(2) 2 3, of test_library 0]
    C10_inactive_before_password [OF 1(1) 1(3) 2 3, of test_library 0] 3 4
  show ?thesis by simp
qed








text \<open>
  C9. Every user that \<open>Register\<close>, \<open>Login\<close> (inside its response) and
  \<open>ValidateAccessToken\<close> return has an empty password hash.
\<close>

theorem C9_password_hash_stripped:
  "(Register lib s today now req = Inr u \<longrightarrow> PasswordHash u = [])
   \<and> (Login lib s now email password = Inr resp \<longrightarrow> PasswordHash (User resp) = [])
   \<and> (ValidateAccessToken lib s now tok = Inr u' \<longrightarrow> PasswordHash u' = [])"
proof (intro conjI impI)
  assume "Register lib s today now req = Inr u"
  then show "PasswordHash u = []"
    by (auto simp add: Register_def Let_def
        split: option.splits sum.splits prod.splits if_splits)
next
  assume "Login lib s now email password = Inr resp"
  then show "PasswordHash (User resp) = []"
    by (auto simp add: Login_def split: option.splits sum.splits prod.splits if_splits)
next
  assume "ValidateAccessToken lib s now tok = Inr u'"
  then show "PasswordHash u' = []"
    by (auto simp add: ValidateAccessToken_def
        split: option.splits sum.splits prod.splits if_splits)
qed

lemmas fixture_defs =
  test_service_def NewAuthService_def mock_repo_empty_def mock_repo_with_def mock_user_def
  test_library_def test_secret_def test_uuid_text_def test_hash_def test_request_def
  issued_access_token_def issued_refresh_token_def

lemmas token_defs =
  GenerateAccessToken_def GenerateRefreshToken_def generateToken_def ValidateToken_def
  Validate_def NewNumericDate_def Minute_def Second_def Let_def
  generateAccessToken_def generateRefreshToken_def json_string_def





lemma register_fixture:
  "\<not> isl (Register test_library (test_service mock_repo_empty) (Date 2026 3 1) 1000
            (test_request (Date 1990 1 1)))"
  by (simp add: Register_def validateRegistrationRequest_def validateEmail_def
      validatePassword_def MatchString_class_def HashPassword_def fixture_defs Date_def
      IsZero_def YearDay_def isLeap_def TrimSpace_def is_space_def ToLower_def lower_char_def
      is_upper_def is_lower_def is_digit_def regexp_special_class_def commonPasswords_def
      Let_def)

lemma login_fixture:
  "\<not> isl (Login test_library (test_service (mock_repo_with (mock_user True))) 1000
            ''john.doe@example.com'' ''SecurePass123!'')"
  by (simp add: Login_def ComparePasswords_def fixture_defs token_defs
      TrimSpace_def is_space_def ToLower_def lower_char_def is_upper_def)

lemma validate_access_fixture:
  "\<not> isl (ValidateAccessToken test_library (test_service (mock_repo_with (mock_user True)))
            1000 issued_access_token)"
  by (simp add: ValidateAccessToken_def fixture_defs token_defs)

text \<open>
  Successful runs of the three operations on the fixtures; the stored hash is not empty.
\<close>

theorem C9_password_hash_stripped_witness:
  "\<not> isl (Register test_library (test_service mock_repo_empty) (Date 2026 3 1) 1000
            (test_request (Date 1990 1 1)))
   \<and> PasswordHash (projr (Register test_library (test_service mock_repo_empty) (Date 2026 3 1)
        1000 (test_request (Date 1990 1 1)))) = []
   \<and> PasswordHash (mock_user True) \<noteq> []
   \<and> \<not> isl (Login test_library (test_service (mock_repo_with (mock_user True))) 1000
            ''john.doe@example.com'' ''SecurePass123!'')
   \<and> PasswordHash (User (projr (Login test_library
        (test_service (mock_repo_with (mock_user True))) 1000
        ''john.doe@example.com'' ''SecurePass123!''))) = []
   \<and> \<not> isl (ValidateAccessToken test_library (test_service (mock_repo_with (mock_user True)))
            1000 issued_access_token)
   \<and> PasswordHash (projr (ValidateAccessToken test_library
        (test_service (mock_repo_with (mock_user True))) 1000 issued_access_token)) = []"
proof -
  let ?r = "Register test_library (test_service mock_repo_empty) (Date 2026 3 1) 1000
            (test_request (Date 1990 1 1))"
  let ?l = "Login test_library (test_service (mock_repo_with (mock_user True))) 1000
            ''john.doe@example.com'' ''SecurePass123!''"
  let ?v = "ValidateAccessToken test_library (test_service (mock_repo_with (mock_user True)))
            1000 issued_access_token"
  have r: "?r = Inr (projr ?r)" using register_fixture by simp
  have l: "?l = Inr (projr ?l)" using login_fixture by simp
  have v: "?v = Inr (projr ?v)" using validate_access_fixture by simp
  have h: "PasswordHash (mock_user True) \<noteq> []" by (simp add: mock_user_def test_hash_def)
  from C9_password_hash_stripped [of test_library "test_service mock_repo_empty"
      "Date 2026 3 1" 1000 "test_request (Date 1990 1 1)" "projr ?r"
      "''john.doe@example.com''" "''SecurePass123!''" "projr ?l" issued_access_token "projr ?v"]
    C9_password_hash_stripped [of test_library "test_service (mock_repo_with (mock_user True))"
      "Date 2026 3 1" 1000 "test_request (Date 1990 1 1)" "projr ?r"
      "''john.doe@example.com''" "''SecurePass123!''" "projr ?l" issued_access_token "projr ?v"]
    r l v h register_fixture login_fixture validate_access_fixture
  show ?thesis by simp
qed

section \<open>Age check: theorems\<close>

lemmas registration_defs =
  Register_def validateRegistrationRequest_def validateEmail_def
  validatePassword_def MatchString_class_def HashPassword_def fixture_defs Date_def
  IsZero_def YearDay_def isLeap_def TrimSpace_def is_space_def ToLower_def lower_char_def
  is_upper_def is_lower_def is_digit_def regexp_special_class_def commonPasswords_def
  Let_def

text \<open>
  C4 fails on the code. An applicant born on 1 March 2008 who registers on 1 March 2026,
  the 18th birthday, is 18 years old but is rejected: 2008 is a leap year, so the birthday
  is day 61 of its year and day 60 of 2026, and the comparison of the days of the year
  takes the birthday as still to come. In the other direction an applicant born on
  2 March 2006 who registers on 1 March 2024, one day before the 18th birthday, passes the
  check and is registered: both days are day 61 of their year.
\<close>

theorem C4_year_day_comparison_misjudges_birthdays:
  "valid_date (Date 2008 3 1) \<and> valid_date (Date 2026 3 1)
   \<and> at_least_18 (Date 2026 3 1) (Date 2008 3 1)
   \<and> validateRegistrationRequest (Date 2026 3 1) (test_request (Date 2008 3 1))
       = Some (NewBadRequest ''you must be at least 18 years old to register'')
   \<and> Register test_library (test_service mock_repo_empty) (Date 2026 3 1) 1000
        (test_request (Date 2008 3 1))
       = Inl (NewBadRequest ''you must be at least 18 years old to register'')
   \<and> valid_date (Date 2006 3 2) \<and> valid_date (Date 2024 3 1)
   \<and> \<not> at_least_18 (Date 2024 3 1) (Date 2006 3 2)
   \<and> validateRegistrationRequest (Date 2024 3 1) (test_request (Date 2006 3 2)) = None
   \<and> \<not> isl (Register test_library (test_service mock_repo_empty) (Date 2024 3 1) 1000
              (test_request (Date 2006 3 2)))"
  by (simp add: registration_defs valid_date_def daysIn_def at_least_18_def age_on_def)

end
